theory Spec2Isabelle
  imports Complex_Main "HOL-Library.Multiset"
begin

unbundle bit_operations_syntax

section \<open>Python values, text and exceptions\<close>

text \<open>
  Text is a \<^typ>\<open>string\<close>: one \<^typ>\<open>char\<close> per code point, for code points below 256
  (the instrument speaks ASCII). A Python number that is only ever formatted into a
  command (\<^verbatim>\<open>f"{voltage}"\<close>) is represented by the text \<^verbatim>\<open>str()\<close> gives for it; that
  text is ASCII, so \<^verbatim>\<open>encode('ascii')\<close> in \<^verbatim>\<open>_sendline\<close> cannot fail on it. Output to
  stdout (\<^verbatim>\<open>dprint\<close>) and the re-entrant lock are not part of the model: neither
  changes the control flow of a single caller.
\<close>

type_synonym pynum = string

text \<open>
  The exceptions the modelled code raises. \<^verbatim>\<open>GPPException(repr(e))\<close> keeps the wrapped
  exception instead of its \<^verbatim>\<open>repr\<close> text. \<open>Unmodelled\<close> is not an exception: it marks an
  input that the model has no value for (see \<open>decode_utf8\<close>).
\<close>

datatype exn =
    RuntimeError string
  | ValueError string
  | AttributeError string
  | TypeError string
  | IndexError string
  | UnboundLocalError string
  | OSError string
  | UnicodeDecodeError string
  | Unmodelled string
  | GPPException gpp_message
and gpp_message =
    Message string
  | Repr exn

definition newline :: char where
  "newline = CHR 0x0A"

definition quoted :: "string \<Rightarrow> string" where
  "quoted s = [CHR 0x27] @ s @ [CHR 0x27]"

text \<open>\<^verbatim>\<open>str.isspace\<close> on code points below 256, which is also what \<^verbatim>\<open>\s\<close> matches.\<close>

definition space_chars :: "char list" where
  "space_chars = [CHR 0x09, CHR 0x0A, CHR 0x0B, CHR 0x0C, CHR 0x0D,
                  CHR 0x1C, CHR 0x1D, CHR 0x1E, CHR 0x1F, CHR 0x20, CHR 0x85, CHR 0xA0]"

definition digit_chars :: "char list" where
  "digit_chars = ''0123456789''"

definition digit_char :: "nat \<Rightarrow> char" where
  "digit_char d = char_of (48 + d)"

definition digit_val :: "char \<Rightarrow> nat" where
  "digit_val c = of_char c - 48"

text \<open>\<^verbatim>\<open>str(n)\<close> of an integer.\<close>

fun str_nat :: "nat \<Rightarrow> string" where
  "str_nat n = (if n < 10 then [digit_char n] else str_nat (n div 10) @ [digit_char (n mod 10)])"

declare str_nat.simps [simp del]

definition str_int :: "int \<Rightarrow> string" where
  "str_int i = (if i < 0 then CHR ''-'' # str_nat (nat (- i)) else str_nat (nat i))"

text \<open>\<^verbatim>\<open>int(s)\<close> on a run of the digits 0 to 9, as \<^verbatim>\<open>(\d+)\<close> captures it.\<close>

definition py_int :: "string \<Rightarrow> int" where
  "py_int s = int (foldl (\<lambda>a c. 10 * a + digit_val c) 0 s)"

text \<open>\<^verbatim>\<open>str.split(sep)\<close> with a one-character separator: every separator splits, empty
  pieces are kept.\<close>

fun split_on :: "char \<Rightarrow> string \<Rightarrow> string list" where
  "split_on sep [] = [[]]"
| "split_on sep (c # cs) =
     (if c = sep then [] # split_on sep cs
      else (case split_on sep cs of
              p # ps \<Rightarrow> (c # p) # ps
            | [] \<Rightarrow> [[c]]))"

text \<open>\<^verbatim>\<open>str.strip()\<close>.\<close>

definition strip :: "string \<Rightarrow> string" where
  "strip s = rev (dropWhile (\<lambda>c. c \<in> set space_chars)
               (rev (dropWhile (\<lambda>c. c \<in> set space_chars) s)))"

section \<open>Regular expressions: the fragment the source uses\<close>

text \<open>
  The patterns of the source are sequences of literal characters and of character
  classes under a greedy \<^verbatim>\<open>*\<close> or \<^verbatim>\<open>+\<close>, with unnested capture groups. \<^verbatim>\<open>re.search\<close> is
  the backtracking matcher: leftmost start, and at each repetition the longest run
  first, then shorter ones.
\<close>

datatype cset = In "char list" | NotIn "char list"

datatype atom = Lit char | Star cset | Plus cset

datatype item = Bare atom | Group "atom list"

type_synonym regex = "item list"

fun in_cset :: "cset \<Rightarrow> char \<Rightarrow> bool" where
  "in_cset (In cs) c = (c \<in> set cs)"
| "in_cset (NotIn cs) c = (c \<notin> set cs)"

text \<open>The first alternative that succeeds.\<close>

fun first_some :: "'a option list \<Rightarrow> 'a option" where
  "first_some [] = None"
| "first_some (None # xs) = first_some xs"
| "first_some (Some y # xs) = Some y"

text \<open>The run lengths a repetition tries, longest first.\<close>

definition run_lengths :: "nat \<Rightarrow> cset \<Rightarrow> string \<Rightarrow> nat list" where
  "run_lengths lo cs s = rev [lo ..< Suc (length (takeWhile (in_cset cs) s))]"

text \<open>Matching a sequence of atoms at the start of the text: the piece each atom
  consumed, for the first alternative that succeeds.\<close>

fun match_here :: "atom list \<Rightarrow> string \<Rightarrow> string list option" where
  "match_here [] s = Some []"
| "match_here (Lit c # as) s =
     (case s of
        [] \<Rightarrow> None
      | x # xs \<Rightarrow> if x = c then map_option ((#) [c]) (match_here as xs) else None)"
| "match_here (Star cs # as) s =
     first_some (map (\<lambda>k. map_option ((#) (take k s)) (match_here as (drop k s)))
                  (run_lengths 0 cs s))"
| "match_here (Plus cs # as) s =
     first_some (map (\<lambda>k. map_option ((#) (take k s)) (match_here as (drop k s)))
                  (run_lengths 1 cs s))"

fun atoms :: "regex \<Rightarrow> atom list" where
  "atoms [] = []"
| "atoms (Bare a # r) = a # atoms r"
| "atoms (Group as # r) = as @ atoms r"

text \<open>The text of each capture group, from the pieces of the atoms.\<close>

fun captures :: "regex \<Rightarrow> string list \<Rightarrow> string list" where
  "captures [] ps = []"
| "captures (Bare a # r) ps = captures r (drop 1 ps)"
| "captures (Group as # r) ps =
     concat (take (length as) ps) # captures r (drop (length as) ps)"

text \<open>A match object is the list of its groups (group 1 first).\<close>

type_synonym match = "string list"

definition re_search :: "regex \<Rightarrow> string \<Rightarrow> match option" where
  "re_search r s =
     first_some (map (\<lambda>i. map_option (captures r) (match_here (atoms r) (drop i s)))
                  [0 ..< Suc (length s)])"

text \<open>\<^verbatim>\<open>m.group(k)\<close> and \<^verbatim>\<open>m[k]\<close> for a group the pattern has.\<close>

definition group :: "match \<Rightarrow> nat \<Rightarrow> string" where
  "group m k = m ! (k - 1)"

text \<open>The patterns of the source.\<close>

definition pat_digits :: regex where \<comment> \<open>\<^verbatim>\<open>(\d+)\<close>\<close>
  "pat_digits = [Group [Plus (In digit_chars)]]"

definition pat_word :: regex where \<comment> \<open>\<^verbatim>\<open>(\S+)\<close>\<close>
  "pat_word = [Group [Plus (NotIn space_chars)]]"

definition pat_meas :: regex where \<comment> \<open>\<^verbatim>\<open>([0-9.,;]+)\<close>\<close>
  "pat_meas = [Group [Plus (In ''0123456789.,;'')]]"

definition pat_idn :: regex where \<comment> \<open>\<^verbatim>\<open>([^,]*),([^,]*),SN:([^,]*),([^,]*)\<close>\<close>
  "pat_idn =
     [Group [Star (NotIn '','')], Bare (Lit CHR '',''),
      Group [Star (NotIn '','')], Bare (Lit CHR '',''),
      Bare (Lit CHR ''S''), Bare (Lit CHR ''N''), Bare (Lit CHR '':''),
      Group [Star (NotIn '','')], Bare (Lit CHR '',''),
      Group [Star (NotIn '','')]]"

section \<open>Decoding a received line\<close>

text \<open>
  \<^verbatim>\<open>s.decode('utf-8')\<close>. A received line is bytes, one \<^typ>\<open>char\<close> per byte. The strict
  decoder accepts the well-formed sequences only: no overlong form, no surrogate, nothing
  above U+10FFFF, no truncated sequence; on any other byte sequence it raises
  \<^verbatim>\<open>UnicodeDecodeError\<close> (whose message, the byte and its position, is not modelled).
\<close>

definition continuation :: "nat \<Rightarrow> bool" where
  "continuation b = (0x80 \<le> b \<and> b \<le> 0xBF)"

fun decode_points :: "nat list \<Rightarrow> nat list option" where
  "decode_points [] = Some []"
| "decode_points (b # bs) =
     (if b < 0x80 then map_option ((#) b) (decode_points bs)
      else if 0xC2 \<le> b \<and> b \<le> 0xDF then
        (case bs of
           b1 # r \<Rightarrow>
             if continuation b1
             then map_option ((#) ((b - 0xC0) * 64 + (b1 - 0x80))) (decode_points r)
             else None
         | _ \<Rightarrow> None)
      else if 0xE0 \<le> b \<and> b \<le> 0xEF then
        (case bs of
           b1 # b2 # r \<Rightarrow>
             if (if b = 0xE0 then 0xA0 else 0x80) \<le> b1 \<and> b1 \<le> (if b = 0xED then 0x9F else 0xBF)
                \<and> continuation b2
             then map_option ((#) ((b - 0xE0) * 4096 + (b1 - 0x80) * 64 + (b2 - 0x80)))
                    (decode_points r)
             else None
         | _ \<Rightarrow> None)
      else if 0xF0 \<le> b \<and> b \<le> 0xF4 then
        (case bs of
           b1 # b2 # b3 # r \<Rightarrow>
             if (if b = 0xF0 then 0x90 else 0x80) \<le> b1 \<and> b1 \<le> (if b = 0xF4 then 0x8F else 0xBF)
                \<and> continuation b2 \<and> continuation b3
             then map_option ((#) ((b - 0xF0) * 262144 + (b1 - 0x80) * 4096 + (b2 - 0x80) * 64
                                   + (b3 - 0x80)))
                    (decode_points r)
             else None
         | _ \<Rightarrow> None)
      else None)"

text \<open>
  The decoded text, one \<^typ>\<open>char\<close> per code point. A well-formed line with a code point
  above U+00FF has no text in this model: \<open>decode_utf8\<close> marks it \<open>Unmodelled\<close>, which
  is no exception of the program, and no statement below is about such a line.
\<close>

definition decode_utf8 :: "string \<Rightarrow> exn + string" where
  "decode_utf8 bs =
     (case decode_points (map of_char bs) of
        None \<Rightarrow> Inl (UnicodeDecodeError ''utf-8'')
      | Some cps \<Rightarrow>
          if list_all (\<lambda>cp. cp < 256) cps then Inr (map char_of cps)
          else Inl (Unmodelled ''code point above U+00FF''))"

section \<open>The transport and the protocol engine\<close>

text \<open>
  The transport is what the instrument will answer (\<open>incoming\<close>, the bytes of one
  \<^verbatim>\<open>readline()\<close> per entry, with the line end) and what has been written to it (\<open>sent\<close>,
  one entry per \<^verbatim>\<open>write\<close>). \<^verbatim>\<open>readline()\<close> at the end of the stream, or on a serial
  timeout with nothing received, returns no bytes.
\<close>

record transport =
  incoming :: "string list"
  sent :: "string list"

type_synonym 'a io = "transport \<Rightarrow> (exn + 'a) \<times> transport"

definition return :: "'a \<Rightarrow> 'a io" where
  "return x t = (Inr x, t)"

definition raise :: "exn \<Rightarrow> 'a io" where
  "raise e t = (Inl e, t)"

definition bind :: "'a io \<Rightarrow> ('a \<Rightarrow> 'b io) \<Rightarrow> 'b io" where
  "bind m f t = (case m t of (Inl e, t') \<Rightarrow> (Inl e, t') | (Inr x, t') \<Rightarrow> f x t')"

definition next_io :: "unit io \<Rightarrow> 'b io \<Rightarrow> 'b io" where
  "next_io m k = bind m (\<lambda>_. k)"

definition when_io :: "bool \<Rightarrow> unit io \<Rightarrow> unit io" where
  "when_io b m = (if b then m else return ())"

definition encode_line :: "string \<Rightarrow> string" where
  "encode_line l = l @ [newline]"

definition sendline :: "string \<Rightarrow> unit io" where
  "sendline l t = (Inr (), t\<lparr>sent := sent t @ [encode_line l]\<rparr>)"

definition readline :: "transport \<Rightarrow> string \<times> transport" where
  "readline t = (case incoming t of [] \<Rightarrow> ([], t) | l # ls \<Rightarrow> (l, t\<lparr>incoming := ls\<rparr>))"

definition expect :: "regex \<Rightarrow> match option io" where
  "expect pattern t =
     (case readline t of
        (s, t') \<Rightarrow>
          (case decode_utf8 s of
             Inl e \<Rightarrow> (Inl e, t')
           | Inr s' \<Rightarrow> (Inr (re_search pattern s'), t')))"

text \<open>\<^verbatim>\<open>rv.group(k)\<close> and \<^verbatim>\<open>rv[1]\<close> on what \<^verbatim>\<open>_expect\<close> returned.\<close>

definition group_of :: "match option \<Rightarrow> nat \<Rightarrow> string io" where
  "group_of rv k =
     (case rv of
        None \<Rightarrow> raise (AttributeError
                 (quoted ''NoneType'' @ '' object has no attribute '' @ quoted ''group''))
      | Some m \<Rightarrow> return (group m k))"

definition item1 :: "match option \<Rightarrow> string io" where
  "item1 rv =
     (case rv of
        None \<Rightarrow> raise (TypeError (quoted ''NoneType'' @ '' object is not subscriptable''))
      | Some m \<Rightarrow> return (group m 1))"

text \<open>The polling loop of \<^verbatim>\<open>wait\<close>; it returns the value of \<^verbatim>\<open>tries\<close> at the loop's end.\<close>

fun wait_loop :: "nat \<Rightarrow> nat io" where
  "wait_loop tries =
     (if tries > 0 then
        next_io (sendline ''*ESR?'')
          (bind (expect pat_digits) (\<lambda>rv.
           bind (group_of rv 1) (\<lambda>g.
             let val = py_int g in
             if val AND 32 \<noteq> 0 then raise (RuntimeError ''command syntax error from supply'')
             else if val AND 16 \<noteq> 0 then raise (RuntimeError ''execution error from supply'')
             else if val AND 8 \<noteq> 0 then raise (RuntimeError ''device error from supply'')
             else if val AND 1 \<noteq> 0 then return tries
             else wait_loop (tries - 1))))
      else return tries)"

declare wait_loop.simps [simp del]

definition wait :: "unit io" where
  "wait =
     next_io (sendline ''*OPC'')
       (bind (wait_loop 5) (\<lambda>tries.
          if tries = 0 then raise (RuntimeError ''supply never became ready'')
          else return ()))"

text \<open>What a caller reads from a received line with \<^verbatim>\<open>_expect(pattern).group(1)\<close>, when the
  line decodes and holds a match.\<close>

definition first_group :: "regex \<Rightarrow> string \<Rightarrow> string option" where
  "first_group pattern l =
     (case decode_utf8 l of
        Inl e \<Rightarrow> None
      | Inr s \<Rightarrow> map_option (\<lambda>m. group m 1) (re_search pattern s))"

text \<open>The status-register value that \<^verbatim>\<open>wait\<close> reads from a response line:
  \<^verbatim>\<open>int(self._expect(r'(\d+)').group(1))\<close>, where the line decodes and has digits.\<close>

definition esr_value :: "string \<Rightarrow> int option" where
  "esr_value l = map_option py_int (first_group pat_digits l)"

section \<open>Monitor\<close>

text \<open>A monitor condition is the tuple the static methods build, or \<^verbatim>\<open>None\<close>.\<close>

type_synonym condition = "(string \<times> pynum) option"

definition ABOVE :: "pynum \<Rightarrow> string \<times> pynum" where
  "ABOVE n = (''>'', n)"

definition BELOW :: "pynum \<Rightarrow> string \<times> pynum" where
  "BELOW n = (''<'', n)"

definition EQUAL :: "pynum \<Rightarrow> string \<times> pynum" where
  "EQUAL n = (''='', n)"

definition TRIG_NONE :: int where
  "TRIG_NONE = 0"

definition TRIG_OUTOFF :: int where
  "TRIG_OUTOFF = 1"

definition TRIG_ALARM :: int where
  "TRIG_ALARM = 2"

definition TRIG_BEEPER :: int where
  "TRIG_BEEPER = 4"

section \<open>Channel\<close>

text \<open>
  A channel is its number \<open>n\<close>; the device it belongs to is the transport the
  operations run on. The channel number is formatted into each command: \<^verbatim>\<open>{self.n}\<close> is
  \<open>str_int n\<close>.
\<close>

definition on_off :: "bool \<Rightarrow> string" where
  "on_off b = (if b then ''ON'' else ''OFF'')"

definition disable :: "int \<Rightarrow> unit io" where
  "disable n = next_io (sendline ('':OUTP'' @ str_int n @ '':STAT OFF'')) wait"

definition enable :: "int \<Rightarrow> unit io" where
  "enable n = next_io (sendline ('':OUTP'' @ str_int n @ '':STAT ON'')) wait"

definition set_source :: "int \<Rightarrow> pynum \<Rightarrow> pynum \<Rightarrow> unit io" where
  "set_source n voltage current =
     next_io (sendline ''TRACK0'')
    (next_io (when_io (n = 1 \<or> n = 2) (sendline ('':LOAD'' @ str_int n @ '':CC OFF'')))
    (next_io (sendline ('':SOUR'' @ str_int n @ '':CURR '' @ current))
    (next_io (sendline ('':SOUR'' @ str_int n @ '':VOLT '' @ voltage))
    (next_io wait
      (if n = 1 \<or> n = 2 then
         next_io (sendline ('':MODE'' @ str_int n @ ''?''))
        (bind (expect pat_word) (\<lambda>rv.
         bind (group_of rv 1) (\<lambda>g.
           if g \<noteq> ''IND'' then raise (RuntimeError ''supply failed to switch to source mode'')
           else return ())))
       else return ())))))"

text \<open>\<^verbatim>\<open>f"{x}"\<close> of an optional number.\<close>

definition str_opt :: "pynum option \<Rightarrow> string" where
  "str_opt x = (case x of None \<Rightarrow> ''None'' | Some v \<Rightarrow> v)"

definition set_load :: "int \<Rightarrow> pynum option \<Rightarrow> pynum option \<Rightarrow> pynum option \<Rightarrow> unit io" where
  "set_load n cv cc cr =
     (if (cv = None \<and> cc = None \<and> cr = None) \<or>
         (cv \<noteq> None \<and> cc \<noteq> None) \<or>
         (cv \<noteq> None \<and> cr \<noteq> None) \<or>
         (cc \<noteq> None \<and> cr \<noteq> None)
      then raise (ValueError (''supply can track only one of CV / CC / CR mode at a time ''
                    @ str_opt cc @ '' '' @ str_opt cv @ '' '' @ str_opt cr))
      else
        bind (case cv of
                Some v \<Rightarrow>
                  next_io (sendline ('':SOUR'' @ str_int n @ '':VOLT '' @ v))
                 (next_io (sendline ('':LOAD'' @ str_int n @ '':CV on''))
                   (return (Some ''CV'')))
              | None \<Rightarrow>
             (case cc of
                Some c \<Rightarrow>
                  next_io (sendline ('':SOUR'' @ str_int n @ '':CURR '' @ c))
                 (next_io (sendline ('':LOAD'' @ str_int n @ '':CC on''))
                   (return (Some ''CC'')))
              | None \<Rightarrow>
             (case cr of
                Some r \<Rightarrow>
                  next_io (sendline ('':LOAD'' @ str_int n @ '':RES '' @ r))
                 (next_io (sendline ('':LOAD'' @ str_int n @ '':CR on''))
                   (return (Some ''CR'')))
              | None \<Rightarrow> return None)))
        (\<lambda>mode.
          next_io wait
         (next_io (sendline ('':MODE'' @ str_int n @ ''?''))
         (bind (expect pat_word) (\<lambda>rv.
          bind (group_of rv 1) (\<lambda>g.
            case mode of
              None \<Rightarrow> raise (UnboundLocalError ''mode'')
            | Some m \<Rightarrow>
                if g \<noteq> m then raise (RuntimeError (''supply failed to switch to '' @ m @ '' mode''))
                else return ()))))))"

definition is_load :: "int \<Rightarrow> bool io" where
  "is_load n =
     next_io (sendline ('':MODE'' @ str_int n @ ''?''))
    (bind (expect pat_word) (\<lambda>rv.
     bind (group_of rv 1) (\<lambda>g. return (g = ''CV'' \<or> g = ''CC'' \<or> g = ''CR''))))"

definition monitor :: "int \<Rightarrow> condition \<Rightarrow> condition \<Rightarrow> condition \<Rightarrow> int \<Rightarrow> unit io" where
  "monitor n current voltage power' trigger =
     next_io (sendline ('':MONI'' @ str_int n @ '':STAT OFF''))
    (next_io (case current of
                Some c \<Rightarrow>
                  next_io (sendline ('':MONI'' @ str_int n @ '':CURR:COND '' @ fst c @ ''C,AND''))
                          (sendline ('':MONI'' @ str_int n @ '':CURR:VAL '' @ snd c))
              | None \<Rightarrow> return ())
    (next_io (case voltage of
                Some v \<Rightarrow>
                  next_io (sendline ('':MONI'' @ str_int n @ '':VOLT:COND '' @ fst v @ ''V,AND''))
                          (sendline ('':MONI'' @ str_int n @ '':VOLT:VAL '' @ snd v))
              | None \<Rightarrow> return ())
    (next_io (case power' of
                Some p \<Rightarrow>
                  next_io (sendline ('':MONI'' @ str_int n @ '':POWER:COND '' @ fst p @ ''P''))
                          (sendline ('':MONI'' @ str_int n @ '':POWER:VAL '' @ snd p))
              | None \<Rightarrow> return ())
    (next_io (when_io (current = None) (sendline ('':MONI'' @ str_int n @ '':CURR:COND NONE,NONE'')))
    (next_io (when_io (voltage = None) (sendline ('':MONI'' @ str_int n @ '':VOLT:COND NONE,NONE'')))
    (next_io (when_io (power' = None) (sendline ('':MONI'' @ str_int n @ '':POWER:COND NONE'')))
    (next_io (sendline ('':MONI'' @ str_int n @ '':STOP BEEPER,ON''))
    (next_io (sendline ('':MONI'' @ str_int n @ '':STOP OUTOFF,''
                          @ on_off (trigger AND TRIG_OUTOFF \<noteq> 0)))
    (next_io (sendline ('':MONI'' @ str_int n @ '':STOP ALARM,''
                          @ on_off (trigger AND TRIG_ALARM \<noteq> 0)))
    (next_io (sendline ('':MONI'' @ str_int n @ '':STOP BEEPER,''
                          @ on_off (trigger AND TRIG_BEEPER \<noteq> 0)))
    (next_io wait
    (next_io (when_io (trigger \<noteq> 0 \<and> (current \<noteq> None \<or> voltage \<noteq> None \<or> power' \<noteq> None))
                (sendline ('':MONI'' @ str_int n @ '':STAT ON'')))
    (next_io wait
      (sendline '':DISP:TYPE 1''))))))))))))))"

text \<open>
  The sequence configuration. \<open>cycles\<close> is the Python value that \<^verbatim>\<open>sequence\<close> compares
  with \<^verbatim>\<open>True\<close>: a \<^verbatim>\<open>bool\<close> or an \<^verbatim>\<open>int\<close>. In Python \<^verbatim>\<open>1 == True\<close> holds.
\<close>

datatype pyval = PyBool bool | PyInt int

fun eq_True :: "pyval \<Rightarrow> bool" where
  "eq_True (PyBool b) = b"
| "eq_True (PyInt i) = (i = 1)"

fun str_pyval :: "pyval \<Rightarrow> string" where
  "str_pyval (PyBool b) = (if b then ''True'' else ''False'')"
| "str_pyval (PyInt i) = str_int i"

record seq =
  groups :: "(pynum \<times> pynum \<times> pynum) list"
  start :: pynum
  cycles :: pyval
  seq_end :: pynum

text \<open>The loop over \<^verbatim>\<open>enumerate(seq.groups)\<close>, from index \<open>k\<close> on.\<close>

fun send_groups :: "int \<Rightarrow> nat \<Rightarrow> (pynum \<times> pynum \<times> pynum) list \<Rightarrow> unit io" where
  "send_groups n k [] = return ()"
| "send_groups n k (grp # grps) =
     next_io (sendline ('':SEQU'' @ str_int n @ '':PARA '' @ str_nat k @ '','' @ fst grp
                          @ '','' @ fst (snd grp) @ '','' @ snd (snd grp)))
             (send_groups n (Suc k) grps)"

definition sequence :: "int \<Rightarrow> seq \<Rightarrow> bool \<Rightarrow> unit io" where
  "sequence n sq active =
     next_io (sendline ('':SEQU'' @ str_int n @ '':STAT OFF''))
    (next_io (sendline ('':SEQU'' @ str_int n @ '':GROUP '' @ str_nat (length (groups sq))))
    (next_io (send_groups n 0 (groups sq))
    (next_io (sendline ('':SEQU'' @ str_int n @ '':STAR '' @ start sq))
    (next_io (if eq_True (cycles sq)
              then sendline ('':SEQU'' @ str_int n @ '':CYCLE I'')
              else sendline ('':SEQU'' @ str_int n @ '':CYCLE N,'' @ str_pyval (cycles sq)))
    (next_io (sendline ('':SEQU'' @ str_int n @ '':ENDS '' @ seq_end sq))
    (next_io wait
    (next_io (when_io active
                (next_io (sendline ('':SEQU'' @ str_int n @ '':STAT ON'')) wait))
      (sendline '':DISP:TYPE 1''))))))))"

definition sequence_enable :: "int \<Rightarrow> bool \<Rightarrow> unit io" where
  "sequence_enable n active = sendline ('':SEQU'' @ str_int n @ '':STAT '' @ on_off active)"

section \<open>Measurement\<close>

text \<open>
  \<^verbatim>\<open>float(s)\<close> on a text of digits and dots, which is all that \<^verbatim>\<open>([0-9.,;]+)\<close> and the
  two splits let through: digits with at most one dot and at least one digit. The
  value is the decimal number the text denotes; the rounding of that number to the
  nearest double is not modelled, so two readings are compared as decimals.
\<close>

definition all_digits :: "string \<Rightarrow> bool" where
  "all_digits s = list_all (\<lambda>c. c \<in> set digit_chars) s"

definition py_float :: "string \<Rightarrow> exn + rat" where
  "py_float s =
     (case split_on CHR ''.'' s of
        [i] \<Rightarrow>
          if i \<noteq> [] \<and> all_digits i then Inr (of_int (py_int i))
          else Inl (ValueError (''could not convert string to float: '' @ quoted s))
      | [i, f] \<Rightarrow>
          if (i \<noteq> [] \<or> f \<noteq> []) \<and> all_digits i \<and> all_digits f
          then Inr (of_int (py_int (i @ f)) / 10 ^ length f)
          else Inl (ValueError (''could not convert string to float: '' @ quoted s))
      | _ \<Rightarrow> Inl (ValueError (''could not convert string to float: '' @ quoted s)))"

text \<open>\<^verbatim>\<open>ch[k]\<close> for \<open>k \<ge> 0\<close>.\<close>

definition index :: "'a list \<Rightarrow> nat \<Rightarrow> exn + 'a" where
  "index xs k = (if k < length xs then Inr (xs ! k) else Inl (IndexError ''list index out of range''))"

definition bind_e :: "exn + 'a \<Rightarrow> ('a \<Rightarrow> exn + 'b) \<Rightarrow> exn + 'b" where
  "bind_e m f = (case m of Inl e \<Rightarrow> Inl e | Inr x \<Rightarrow> f x)"

text \<open>One entry of the snapshot: the inner dictionary, whose \<^verbatim>\<open>'mode'\<close> key is set by
  the second loop of \<^verbatim>\<open>update\<close>.\<close>

record reading =
  voltage :: rat
  current :: rat
  power' :: rat
  channel :: nat
  mode :: "string option"

definition entry :: "nat \<Rightarrow> string list \<Rightarrow> exn + (nat \<times> reading)" where
  "entry chn ch =
     bind_e (bind_e (index ch 0) py_float) (\<lambda>v.
     bind_e (bind_e (index ch 1) py_float) (\<lambda>c.
     bind_e (bind_e (index ch 2) py_float) (\<lambda>p.
       Inr (chn + 1, \<lparr>voltage = v, current = c, power' = p, channel = chn + 1, mode = None\<rparr>))))"

text \<open>The dictionary comprehension over \<^verbatim>\<open>enumerate(chs)\<close>, from index \<open>chn\<close> on; the
  dictionary is the list of its items, in insertion order (the keys are distinct).\<close>

fun entries :: "nat \<Rightarrow> string list list \<Rightarrow> exn + (nat \<times> reading) list" where
  "entries chn [] = Inr []"
| "entries chn (ch # chs) =
     bind_e (entry chn ch) (\<lambda>e.
     bind_e (entries (Suc chn) chs) (\<lambda>es. Inr (e # es)))"

text \<open>The loop that asks each channel's mode.\<close>

fun attach_modes :: "(nat \<times> reading) list \<Rightarrow> (nat \<times> reading) list io" where
  "attach_modes [] = return []"
| "attach_modes ((chn, r) # es) =
     next_io (sendline ('':MODE'' @ str_nat chn @ ''?''))
    (bind (expect pat_word) (\<lambda>rv.
     bind (item1 rv) (\<lambda>g.
     bind (attach_modes es) (\<lambda>es'.
       return ((chn, r\<lparr>mode := Some g\<rparr>) # es')))))"

text \<open>\<^verbatim>\<open>update\<close> returns the new value of \<^verbatim>\<open>self.data\<close>.\<close>

definition update :: "(nat \<times> reading) list io" where
  "update =
     next_io (sendline '':MEAS?'')
    (bind (expect pat_meas) (\<lambda>rv.
     bind (group_of rv 1) (\<lambda>g.
       case entries 0 (map (split_on CHR '','') (split_on CHR '';'' g)) of
         Inl e \<Rightarrow> raise e
       | Inr data \<Rightarrow> attach_modes data)))"

section \<open>Device\<close>

text \<open>
  The constructor's arguments: \<open>host\<close> is the pair (host, port) or \<^verbatim>\<open>None\<close>, \<open>sport\<close>
  the pair (port, speed), whose components may be \<^verbatim>\<open>None\<close>, or \<^verbatim>\<open>None\<close>. What opening
  a connection yields is the outside world's: the parameter \<open>net\<close> gives the
  transport, or the exception \<^verbatim>\<open>connect\<close> or \<^verbatim>\<open>serial.Serial\<close> raises.
\<close>

datatype conn = TCP "string \<times> int" | Serial string int

record identity =
  manufacturer :: string
  model :: string
  serial :: string
  version :: string

definition bootstrap :: "identity io" where
  "bootstrap =
     next_io (sendline ''*IDN?'')
    (bind (expect pat_idn) (\<lambda>rv.
     bind (group_of rv 1) (\<lambda>g1.
     bind (group_of rv 2) (\<lambda>g2.
     bind (group_of rv 3) (\<lambda>g3.
     bind (group_of rv 4) (\<lambda>g4.
     next_io (sendline ''*CLS'')
    (next_io (sendline '':SYST:CLE'')
    (next_io (sendline '':STAT:QUE:ENAB (-440:+900)'')
      (return \<lparr>manufacturer = g1, model = g2, serial = g3, version = strip g4\<rparr>)))))))))"

text \<open>The \<^verbatim>\<open>try\<close> block of the constructor on the opened connection: any exception of
  the identification is raised again as \<^verbatim>\<open>GPPException(repr(e))\<close>.\<close>

definition identify :: "transport \<Rightarrow> exn + (identity \<times> transport)" where
  "identify file =
     (case bootstrap file of
        (Inl e, file') \<Rightarrow> Inl (GPPException (Repr e))
      | (Inr ident, file') \<Rightarrow> Inr (ident, file'))"

definition GPP4323_init ::
  "(conn \<Rightarrow> exn + transport) \<Rightarrow> (string \<times> int) option \<Rightarrow> (string option \<times> int option) option
     \<Rightarrow> exn + (identity \<times> transport)" where
  "GPP4323_init net host sport =
     bind_e
       (case host of
          Some h \<Rightarrow> net (TCP h)
        | None \<Rightarrow>
            (case sport of
               Some (Some p, Some b) \<Rightarrow> net (Serial p b)
             | _ \<Rightarrow> Inl (GPPException (Message
                  (''You need to instantiate with host or serial port info; ''
                   @ ''a tuple of host,port or serial_port,speed'')))))
       identify"

text \<open>An outside world for the examples: an instrument answers on the TCP connection, and
  another one on the serial port.\<close>

fun lab_net :: "conn \<Rightarrow> exn + transport" where
  "lab_net (TCP h) = Inr \<lparr>incoming = [''GW INSTEK,GPP-4323,SN:GEW111111,V1.02\<newline>''], sent = []\<rparr>"
| "lab_net (Serial p b) = Inr \<lparr>incoming = [''GW INSTEK,GPP-4323,SN:GEW222222,V1.02\<newline>''], sent = []\<rparr>"

text \<open>The text of the constructor's own \<^verbatim>\<open>GPPException\<close>.\<close>

definition config_message :: string where
  "config_message = ''You need to instantiate with host or serial port info; ''
                   @ ''a tuple of host,port or serial_port,speed''"

section \<open>Reading the command log\<close>

text \<open>The header of a written line, up to its first space, and the lines a call has
  written: what \<open>sent\<close> holds after the call beyond what it held before.\<close>

definition keyword :: "string \<Rightarrow> string" where
  "keyword c = takeWhile (\<lambda>x. x \<noteq> CHR '' '') c"

definition written :: "transport \<Rightarrow> transport \<Rightarrow> string list" where
  "written t t' = drop (length (sent t)) (sent t')"

text \<open>The lines of a monitor configuration: the three condition commands and the stop
  commands of channel \<open>n\<close>, told by their header.\<close>

definition is_condition_command :: "int \<Rightarrow> string \<Rightarrow> bool" where
  "is_condition_command n c =
     (keyword c \<in> {'':MONI'' @ str_int n @ '':CURR:COND'',
                   '':MONI'' @ str_int n @ '':VOLT:COND'',
                   '':MONI'' @ str_int n @ '':POWER:COND''})"

definition is_stop_command :: "int \<Rightarrow> string \<Rightarrow> bool" where
  "is_stop_command n c = (keyword c = '':MONI'' @ str_int n @ '':STOP'')"

text \<open>The commands \<^verbatim>\<open>monitor\<close> writes before its first \<^verbatim>\<open>wait\<close>, in the order of the source.\<close>

definition monitor_setup :: "int \<Rightarrow> condition \<Rightarrow> condition \<Rightarrow> condition \<Rightarrow> int \<Rightarrow> string list" where
  "monitor_setup n cur vol pow trig =
     ['':MONI'' @ str_int n @ '':STAT OFF'']
     @ (case cur of
          Some c \<Rightarrow> ['':MONI'' @ str_int n @ '':CURR:COND '' @ fst c @ ''C,AND'',
                     '':MONI'' @ str_int n @ '':CURR:VAL '' @ snd c]
        | None \<Rightarrow> [])
     @ (case vol of
          Some v \<Rightarrow> ['':MONI'' @ str_int n @ '':VOLT:COND '' @ fst v @ ''V,AND'',
                     '':MONI'' @ str_int n @ '':VOLT:VAL '' @ snd v]
        | None \<Rightarrow> [])
     @ (case pow of
          Some p \<Rightarrow> ['':MONI'' @ str_int n @ '':POWER:COND '' @ fst p @ ''P'',
                     '':MONI'' @ str_int n @ '':POWER:VAL '' @ snd p]
        | None \<Rightarrow> [])
     @ (if cur = None then ['':MONI'' @ str_int n @ '':CURR:COND NONE,NONE''] else [])
     @ (if vol = None then ['':MONI'' @ str_int n @ '':VOLT:COND NONE,NONE''] else [])
     @ (if pow = None then ['':MONI'' @ str_int n @ '':POWER:COND NONE''] else [])
     @ ['':MONI'' @ str_int n @ '':STOP BEEPER,ON'',
        '':MONI'' @ str_int n @ '':STOP OUTOFF,'' @ on_off (trig AND TRIG_OUTOFF \<noteq> 0),
        '':MONI'' @ str_int n @ '':STOP ALARM,'' @ on_off (trig AND TRIG_ALARM \<noteq> 0),
        '':MONI'' @ str_int n @ '':STOP BEEPER,'' @ on_off (trig AND TRIG_BEEPER \<noteq> 0)]"

section \<open>The polling loop\<close>

lemma next_io_sendline:
  "next_io (sendline l) k t = k (t\<lparr>sent := sent t @ [encode_line l]\<rparr>)"
  by (simp add: next_io_def bind_def sendline_def)

lemma next_io_return: "next_io (return ()) k = k"
  by (rule ext) (simp add: next_io_def bind_def return_def)

lemma bind_return: "bind (return x) f = f x"
  by (rule ext) (simp add: bind_def return_def)

lemma bind_raise: "bind (raise e) f = raise e"
  by (rule ext) (simp add: bind_def raise_def)

lemma bind_expect:
  "bind (expect p) f t =
     (case decode_utf8 (fst (readline t)) of
        Inl e \<Rightarrow> (Inl e, snd (readline t))
      | Inr s \<Rightarrow> f (re_search p s) (snd (readline t)))"
  by (cases "readline t") (simp add: bind_def expect_def split: sum.splits)

lemma decode_utf8_errors:
  "decode_utf8 l = Inl e \<Longrightarrow> (\<exists>m. e = UnicodeDecodeError m) \<or> (\<exists>m. e = Unmodelled m)"
  by (auto simp: decode_utf8_def split: option.splits if_splits)

lemma esr_value_Some:
  assumes "esr_value l = Some v"
  obtains s m where "decode_utf8 l = Inr s" "re_search pat_digits s = Some m"
    "v = py_int (group m 1)"
  using assms by (auto simp: esr_value_def first_group_def split: sum.splits)

lemma group_of_Some: "group_of (Some m) k = return (group m k)"
  by (simp add: group_of_def)

lemma group_of_None:
  "group_of None k =
     raise (AttributeError (quoted ''NoneType'' @ '' object has no attribute '' @ quoted ''group''))"
  by (simp add: group_of_def)

lemma readline_Cons: "incoming t = l # ls \<Longrightarrow> readline t = (l, t\<lparr>incoming := ls\<rparr>)"
  by (simp add: readline_def)

lemma readline_Nil: "incoming t = [] \<Longrightarrow> readline t = ([], t)"
  by (simp add: readline_def)

lemma next_io_Inr: "m t = (Inr u, t1) \<Longrightarrow> next_io m k t = k t1"
  by (simp add: next_io_def bind_def)

lemma next_io_Inl: "m t = (Inl e, t1) \<Longrightarrow> next_io m k t = (Inl e, t1)"
  by (simp add: next_io_def bind_def)

lemma wait_loop_0: "wait_loop 0 t = (Inr 0, t)"
  by (simp add: wait_loop.simps return_def)

lemma wait_loop_Suc:
  assumes "incoming t = l # ls" and "esr_value l = Some v"
  shows "wait_loop (Suc k) t =
     (let t' = t\<lparr>sent := sent t @ [encode_line ''*ESR?''], incoming := ls\<rparr> in
      if v AND 32 \<noteq> 0 then (Inl (RuntimeError ''command syntax error from supply''), t')
      else if v AND 16 \<noteq> 0 then (Inl (RuntimeError ''execution error from supply''), t')
      else if v AND 8 \<noteq> 0 then (Inl (RuntimeError ''device error from supply''), t')
      else if v AND 1 \<noteq> 0 then (Inr (Suc k), t')
      else wait_loop k t')"
proof -
  let ?t1 = "t\<lparr>sent := sent t @ [encode_line ''*ESR?'']\<rparr>"
  from assms(2) obtain s m where m: "decode_utf8 l = Inr s" "re_search pat_digits s = Some m"
    "v = py_int (group m 1)"
    by (rule esr_value_Some)
  have r: "readline ?t1 = (l, ?t1\<lparr>incoming := ls\<rparr>)"
    using assms(1) by (simp add: readline_def)
  show ?thesis
    by (subst wait_loop.simps)
       (simp add: next_io_sendline bind_expect r m group_of_Some bind_return Let_def
          return_def raise_def)
qed

lemma wait_loop_unparsed:
  assumes "esr_value (fst (readline t)) = None"
  shows "\<exists>e t'. wait_loop (Suc k) t = (Inl e, t') \<and>
           ((\<exists>m. e = AttributeError m) \<or> (\<exists>m. e = UnicodeDecodeError m) \<or>
            (\<exists>m. e = Unmodelled m))"
proof -
  let ?t1 = "t\<lparr>sent := sent t @ [encode_line ''*ESR?'']\<rparr>"
  have f: "fst (readline ?t1) = fst (readline t)"
    by (simp add: readline_def split: list.splits)
  show ?thesis
  proof (cases "decode_utf8 (fst (readline t))")
    case (Inl e)
    then have "wait_loop (Suc k) t = (Inl e, snd (readline ?t1))"
      by (subst wait_loop.simps) (simp add: next_io_sendline bind_expect f)
    with decode_utf8_errors [OF Inl] show ?thesis by auto
  next
    case (Inr s)
    with assms have n: "re_search pat_digits s = None"
      by (simp add: esr_value_def first_group_def)
    from Inr show ?thesis
      by (subst wait_loop.simps)
         (simp add: next_io_sendline bind_expect f n group_of_None bind_raise raise_def)
  qed
qed

lemma wait_loop_pending:
  assumes "incoming t = ls @ rest"
    and "\<forall>l\<in>set ls. \<exists>v. esr_value l = Some v \<and> v AND 1 = 0 \<and> v AND 32 = 0 \<and> v AND 16 = 0 \<and> v AND 8 = 0"
  shows "wait_loop (length ls + k) t =
         wait_loop k (t\<lparr>sent := sent t @ replicate (length ls) (encode_line ''*ESR?''), incoming := rest\<rparr>)"
  using assms
proof (induction ls arbitrary: t)
  case Nil
  then have "rest = incoming t" by simp
  then show ?case by simp
next
  case (Cons l ls)
  from Cons.prems obtain v where v: "esr_value l = Some v" "v AND 1 = 0" "v AND 32 = 0" "v AND 16 = 0" "v AND 8 = 0"
    by auto
  let ?t' = "t\<lparr>sent := sent t @ [encode_line ''*ESR?''], incoming := ls @ rest\<rparr>"
  have "wait_loop (Suc (length ls + k)) t = wait_loop (length ls + k) ?t'"
    using wait_loop_Suc [of t l "ls @ rest" v "length ls + k"] Cons.prems(1) v by (simp add: Let_def)
  also have "\<dots> = wait_loop k (?t'\<lparr>sent := sent ?t' @ replicate (length ls) (encode_line ''*ESR?''), incoming := rest\<rparr>)"
    using Cons.IH [of ?t'] Cons.prems(2) by simp
  finally show ?case by (simp add: replicate_append_same)
qed

lemma esr_value_empty: "esr_value [] = None"
  by (simp add: esr_value_def first_group_def decode_utf8_def re_search_def pat_digits_def
        run_lengths_def)

lemma esr_value_readline:
  assumes "esr_value (fst (readline t)) = Some v"
  obtains l ls where "incoming t = l # ls" "esr_value l = Some v"
  using assms by (cases "incoming t") (auto simp: readline_def esr_value_empty)

lemma wait_loop_errors:
  "wait_loop k t = (Inl e, t') \<Longrightarrow>
     e \<in> {RuntimeError ''command syntax error from supply'',
           RuntimeError ''execution error from supply'',
           RuntimeError ''device error from supply''} \<or>
     (\<exists>m. e = AttributeError m) \<or> (\<exists>m. e = UnicodeDecodeError m) \<or> (\<exists>m. e = Unmodelled m)"
proof (induction k arbitrary: t)
  case 0
  then show ?case by (simp add: wait_loop_0)
next
  case (Suc k)
  show ?case
  proof (cases "esr_value (fst (readline t))")
    case None
    then show ?thesis using wait_loop_unparsed [of t k] Suc.prems by auto
  next
    case (Some v)
    then obtain l ls where l: "incoming t = l # ls" "esr_value l = Some v"
      by (rule esr_value_readline)
    show ?thesis
      using wait_loop_Suc [OF l, of k] Suc.prems Suc.IH
      by (auto simp: Let_def split: if_splits)
  qed
qed

lemma wait_loop_exhausted:
  "wait_loop k t = (Inr 0, t') \<Longrightarrow>
     \<exists>ls rest. incoming t = ls @ rest \<and> length ls = k \<and>
        (\<forall>l\<in>set ls. \<exists>v. esr_value l = Some v \<and> v AND 1 = 0)"
proof (induction k arbitrary: t)
  case 0
  then show ?case by simp
next
  case (Suc k)
  show ?case
  proof (cases "esr_value (fst (readline t))")
    case None
    then show ?thesis using wait_loop_unparsed [of t k] Suc.prems by auto
  next
    case (Some v)
    then obtain l ls where l: "incoming t = l # ls" "esr_value l = Some v"
      by (rule esr_value_readline)
    let ?t' = "t\<lparr>sent := sent t @ [encode_line ''*ESR?''], incoming := ls\<rparr>"
    from wait_loop_Suc [OF l, of k] Suc.prems
    have v1: "v AND 1 = 0" and rec: "wait_loop k ?t' = (Inr 0, t')"
      by (auto simp: Let_def split: if_splits)
    from Suc.IH [OF rec] obtain ls' rest where
      "ls = ls' @ rest" "length ls' = k" "\<forall>l\<in>set ls'. \<exists>v. esr_value l = Some v \<and> v AND 1 = 0"
      by auto
    with l v1 show ?thesis
      by (intro exI [of _ "l # ls'"] exI [of _ rest]) auto
  qed
qed


lemma esr_value_examples:
  "esr_value ''0\<newline>'' = Some 0"
  "esr_value ''1\<newline>'' = Some 1"
  "esr_value ''4\<newline>'' = Some 4"
  "esr_value ''8\<newline>'' = Some 8"
  "esr_value ''16\<newline>'' = Some 16"
  "esr_value ''32\<newline>'' = Some 32"
  "esr_value ''48\<newline>'' = Some 48"
  "esr_value ''128\<newline>'' = Some 128"
  "esr_value ''132\<newline>'' = Some 132"
  by code_simp+

lemma wait_after_pending:
  assumes "incoming t = ls @ rest"
    and "\<forall>l\<in>set ls. \<exists>v. esr_value l = Some v \<and> v AND 1 = 0 \<and> v AND 32 = 0 \<and> v AND 16 = 0 \<and> v AND 8 = 0"
  shows "wait_loop (length ls + k) (t\<lparr>sent := sent t @ [encode_line ''*OPC'']\<rparr>) =
         wait_loop k (t\<lparr>sent := sent t @ encode_line ''*OPC'' # replicate (length ls) (encode_line ''*ESR?''),
                        incoming := rest\<rparr>)"
  using wait_loop_pending [of "t\<lparr>sent := sent t @ [encode_line ''*OPC'']\<rparr>" ls rest k] assms
  by simp

lemma wait_unfold:
  "wait t = (case wait_loop 5 (t\<lparr>sent := sent t @ [encode_line ''*OPC'']\<rparr>) of
               (Inl e, t') \<Rightarrow> (Inl e, t')
             | (Inr tries, t') \<Rightarrow>
                 if tries = 0 then (Inl (RuntimeError ''supply never became ready''), t')
                 else (Inr (), t'))"
  by (simp add: wait_def next_io_def bind_def sendline_def return_def raise_def
      split: prod.splits sum.splits)

section \<open>Claims\<close>

text \<open>
  C2. When the next five responses to the status-register query all carry a value with
  bit 0x01 clear and none of the fatal bits 0x20, 0x10, 0x08 set, \<^verbatim>\<open>wait\<close> writes
  \<^verbatim>\<open>*OPC\<close>, then exactly five \<^verbatim>\<open>*ESR?\<close> queries, reads exactly those five responses, and
  fails with \<^verbatim>\<open>RuntimeError('supply never became ready')\<close>, the timeout failure.
\<close>

theorem wait_timeout_after_five_polls:
  assumes "incoming t = ls @ rest" and "length ls = 5"
    and "\<forall>l\<in>set ls. \<exists>v. esr_value l = Some v \<and> v AND 1 = 0 \<and> v AND 32 = 0 \<and> v AND 16 = 0 \<and> v AND 8 = 0"
  shows "wait t = (Inl (RuntimeError ''supply never became ready''),
                   t\<lparr>sent := sent t @ encode_line ''*OPC'' # replicate 5 (encode_line ''*ESR?''),
                     incoming := rest\<rparr>)"
proof -
  have "wait_loop 5 (t\<lparr>sent := sent t @ [encode_line ''*OPC'']\<rparr>) =
        (Inr 0, t\<lparr>sent := sent t @ encode_line ''*OPC'' # replicate 5 (encode_line ''*ESR?''),
                  incoming := rest\<rparr>)"
    using wait_after_pending [OF assms(1,3), of 0] assms(2) by (simp add: wait_loop_0)
  then show ?thesis by (simp add: wait_unfold)
qed

theorem wait_timeout_after_five_polls_witness:
  "wait \<lparr>incoming = [''0\<newline>'', ''4\<newline>'', ''128\<newline>'', ''132\<newline>'', ''0\<newline>'', ''1\<newline>''], sent = []\<rparr> =
     (Inl (RuntimeError ''supply never became ready''),
      \<lparr>incoming = [''1\<newline>''],
         sent = [''*OPC\<newline>'', ''*ESR?\<newline>'', ''*ESR?\<newline>'', ''*ESR?\<newline>'', ''*ESR?\<newline>'', ''*ESR?\<newline>'']\<rparr>)"
  using wait_timeout_after_five_polls
    [of "\<lparr>incoming = [''0\<newline>'', ''4\<newline>'', ''128\<newline>'', ''132\<newline>'', ''0\<newline>'', ''1\<newline>''], sent = []\<rparr>"
        "[''0\<newline>'', ''4\<newline>'', ''128\<newline>'', ''132\<newline>'', ''0\<newline>'']" "[''1\<newline>'']"]
  by (simp add: esr_value_examples encode_line_def newline_def numeral_eq_Suc)

lemma wait_not_timeout_from_loop:
  assumes "wait t = (Inl (RuntimeError ''supply never became ready''), t')"
  shows "wait_loop 5 (t\<lparr>sent := sent t @ [encode_line ''*OPC'']\<rparr>) = (Inr 0, t')"
proof (cases "wait_loop 5 (t\<lparr>sent := sent t @ [encode_line ''*OPC'']\<rparr>)")
  case (Pair r t1)
  show ?thesis
  proof (cases r)
    case (Inl e)
    with Pair assms have "e = RuntimeError ''supply never became ready''" "t1 = t'"
      by (simp_all add: wait_unfold)
    with wait_loop_errors [of 5 _ e t1] Pair Inl show ?thesis by auto
  next
    case (Inr k)
    with Pair assms show ?thesis by (simp add: wait_unfold split: if_splits)
  qed
qed

lemma wait_five_zero:
  "wait \<lparr>incoming = [''0\<newline>'', ''0\<newline>'', ''0\<newline>'', ''0\<newline>'', ''0\<newline>''], sent = []\<rparr> =
     (Inl (RuntimeError ''supply never became ready''),
      \<lparr>incoming = [],
         sent = [''*OPC\<newline>'', ''*ESR?\<newline>'', ''*ESR?\<newline>'', ''*ESR?\<newline>'', ''*ESR?\<newline>'', ''*ESR?\<newline>'']\<rparr>)"
  by code_simp

text \<open>
  C10. When the first four responses carry neither bit 0x01 nor a fatal bit and the
  fifth carries bit 0x01 (and no fatal bit), \<^verbatim>\<open>wait\<close> returns normally after five
  \<^verbatim>\<open>*ESR?\<close> queries. And whenever \<^verbatim>\<open>wait\<close> fails with the timeout failure, five responses
  were read and each carried a value without bit 0x01.
\<close>

theorem wait_succeeds_on_fifth_poll:
  "(incoming t = ls @ l # rest \<and> length ls = 4 \<and>
    (\<forall>x\<in>set ls. \<exists>v. esr_value x = Some v \<and> v AND 1 = 0 \<and> v AND 32 = 0 \<and> v AND 16 = 0 \<and> v AND 8 = 0) \<and>
    esr_value l = Some w \<and> w AND 1 \<noteq> 0 \<and> w AND 32 = 0 \<and> w AND 16 = 0 \<and> w AND 8 = 0
    \<longrightarrow> wait t = (Inr (), t\<lparr>sent := sent t @ encode_line ''*OPC'' # replicate 5 (encode_line ''*ESR?''),
                               incoming := rest\<rparr>))
   \<and>
   (wait t = (Inl (RuntimeError ''supply never became ready''), t')
    \<longrightarrow> (\<exists>ls rest. incoming t = ls @ rest \<and> length ls = 5 \<and>
           (\<forall>x\<in>set ls. \<exists>v. esr_value x = Some v \<and> v AND 1 = 0)))"
proof (intro conjI impI)
  assume a: "incoming t = ls @ l # rest \<and> length ls = 4 \<and>
    (\<forall>x\<in>set ls. \<exists>v. esr_value x = Some v \<and> v AND 1 = 0 \<and> v AND 32 = 0 \<and> v AND 16 = 0 \<and> v AND 8 = 0) \<and>
    esr_value l = Some w \<and> w AND 1 \<noteq> 0 \<and> w AND 32 = 0 \<and> w AND 16 = 0 \<and> w AND 8 = 0"
  let ?t4 = "t\<lparr>sent := sent t @ encode_line ''*OPC'' # replicate (length ls) (encode_line ''*ESR?''),
               incoming := l # rest\<rparr>"
  have "wait_loop 5 (t\<lparr>sent := sent t @ [encode_line ''*OPC'']\<rparr>) = wait_loop 1 ?t4"
    using wait_after_pending [of t ls "l # rest" 1] a by simp
  also have "\<dots> = (Inr 1, ?t4\<lparr>sent := sent ?t4 @ [encode_line ''*ESR?''], incoming := rest\<rparr>)"
    using wait_loop_Suc [of ?t4 l rest w 0] a by (simp add: Let_def)
  finally show "wait t = (Inr (), t\<lparr>sent := sent t @ encode_line ''*OPC'' # replicate 5 (encode_line ''*ESR?''),
                               incoming := rest\<rparr>)"
    using a by (simp add: wait_unfold replicate_append_same numeral_eq_Suc)
next
  assume "wait t = (Inl (RuntimeError ''supply never became ready''), t')"
  then have "wait_loop 5 (t\<lparr>sent := sent t @ [encode_line ''*OPC'']\<rparr>) = (Inr 0, t')"
    by (rule wait_not_timeout_from_loop)
  from wait_loop_exhausted [OF this]
  show "\<exists>ls rest. incoming t = ls @ rest \<and> length ls = 5 \<and>
           (\<forall>x\<in>set ls. \<exists>v. esr_value x = Some v \<and> v AND 1 = 0)"
    by simp
qed

theorem wait_succeeds_on_fifth_poll_witness:
  "wait \<lparr>incoming = [''0\<newline>'', ''0\<newline>'', ''4\<newline>'', ''128\<newline>'', ''1\<newline>'', ''0\<newline>''], sent = []\<rparr> =
     (Inr (),
      \<lparr>incoming = [''0\<newline>''],
         sent = [''*OPC\<newline>'', ''*ESR?\<newline>'', ''*ESR?\<newline>'', ''*ESR?\<newline>'', ''*ESR?\<newline>'', ''*ESR?\<newline>'']\<rparr>)
   \<and> (\<exists>ls rest. [''0\<newline>'', ''0\<newline>'', ''0\<newline>'', ''0\<newline>'', ''0\<newline>''] = ls @ rest \<and> length ls = 5 \<and>
           (\<forall>x\<in>set ls. \<exists>v. esr_value x = Some v \<and> v AND 1 = 0))"
proof
  show "wait \<lparr>incoming = [''0\<newline>'', ''0\<newline>'', ''4\<newline>'', ''128\<newline>'', ''1\<newline>'', ''0\<newline>''], sent = []\<rparr> =
     (Inr (),
      \<lparr>incoming = [''0\<newline>''],
         sent = [''*OPC\<newline>'', ''*ESR?\<newline>'', ''*ESR?\<newline>'', ''*ESR?\<newline>'', ''*ESR?\<newline>'', ''*ESR?\<newline>'']\<rparr>)"
    using wait_succeeds_on_fifth_poll
      [of "\<lparr>incoming = [''0\<newline>'', ''0\<newline>'', ''4\<newline>'', ''128\<newline>'', ''1\<newline>'', ''0\<newline>''], sent = []\<rparr>"
          "[''0\<newline>'', ''0\<newline>'', ''4\<newline>'', ''128\<newline>'']" "''1\<newline>''" "[''0\<newline>'']" 1]
    by (simp add: esr_value_examples encode_line_def newline_def numeral_eq_Suc)
next
  show "\<exists>ls rest. [''0\<newline>'', ''0\<newline>'', ''0\<newline>'', ''0\<newline>'', ''0\<newline>''] = ls @ rest \<and> length ls = 5 \<and>
           (\<forall>x\<in>set ls. \<exists>v. esr_value x = Some v \<and> v AND 1 = 0)"
    using wait_succeeds_on_fifth_poll
      [of "\<lparr>incoming = [''0\<newline>'', ''0\<newline>'', ''0\<newline>'', ''0\<newline>'', ''0\<newline>''], sent = []\<rparr>"
          _ _ _ _ "\<lparr>incoming = [],
         sent = [''*OPC\<newline>'', ''*ESR?\<newline>'', ''*ESR?\<newline>'', ''*ESR?\<newline>'', ''*ESR?\<newline>'', ''*ESR?\<newline>'']\<rparr>"]
      wait_five_zero
    by simp
qed

text \<open>
  C3. A response with a fatal bit ends \<^verbatim>\<open>wait\<close> at once, at whichever poll it arrives: no
  further \<^verbatim>\<open>*ESR?\<close> is written and no further response is read. The failure is that of
  the ladder, whose tests run in the order 0x20, 0x10, 0x08: bit 0x20 gives the command
  syntax error; bit 0x10 gives the execution error (bit 0x20 being clear); bit 0x08
  gives the device error (bits 0x20 and 0x10 being clear).
\<close>

theorem wait_fatal_bit_aborts:
  assumes "incoming t = ls @ l # rest" and "length ls < 5"
    and "\<forall>x\<in>set ls. \<exists>v. esr_value x = Some v \<and> v AND 1 = 0 \<and> v AND 32 = 0 \<and> v AND 16 = 0 \<and> v AND 8 = 0"
    and "esr_value l = Some w"
    and "t' = t\<lparr>sent := sent t @ encode_line ''*OPC'' # replicate (Suc (length ls)) (encode_line ''*ESR?''),
                 incoming := rest\<rparr>"
  shows "(w AND 32 \<noteq> 0 \<longrightarrow> wait t = (Inl (RuntimeError ''command syntax error from supply''), t'))
       \<and> (w AND 32 = 0 \<and> w AND 16 \<noteq> 0 \<longrightarrow>
            wait t = (Inl (RuntimeError ''execution error from supply''), t'))
       \<and> (w AND 32 = 0 \<and> w AND 16 = 0 \<and> w AND 8 \<noteq> 0 \<longrightarrow>
            wait t = (Inl (RuntimeError ''device error from supply''), t'))"
proof -
  obtain k where k: "5 = length ls + Suc k"
    using assms(2) by (metis add_Suc_right less_imp_Suc_add)
  let ?t1 = "t\<lparr>sent := sent t @ encode_line ''*OPC'' # replicate (length ls) (encode_line ''*ESR?''),
               incoming := l # rest\<rparr>"
  have t': "t' = ?t1\<lparr>sent := sent ?t1 @ [encode_line ''*ESR?''], incoming := rest\<rparr>"
    using assms(5) by (simp add: replicate_append_same)
  have "wait_loop 5 (t\<lparr>sent := sent t @ [encode_line ''*OPC'']\<rparr>) = wait_loop (Suc k) ?t1"
    using wait_after_pending [OF assms(1,3), of "Suc k"] k by simp
  also have "\<dots> =
      (if w AND 32 \<noteq> 0 then (Inl (RuntimeError ''command syntax error from supply''), t')
       else if w AND 16 \<noteq> 0 then (Inl (RuntimeError ''execution error from supply''), t')
       else if w AND 8 \<noteq> 0 then (Inl (RuntimeError ''device error from supply''), t')
       else if w AND 1 \<noteq> 0 then (Inr (Suc k), t')
       else wait_loop k t')"
    using wait_loop_Suc [of ?t1 l rest w k] assms(4) unfolding t' by (simp add: Let_def)
  finally show ?thesis by (simp add: wait_unfold)
qed

theorem wait_fatal_bit_aborts_witness:
  "wait \<lparr>incoming = [''0\<newline>'', ''32\<newline>'', ''1\<newline>''], sent = []\<rparr> =
     (Inl (RuntimeError ''command syntax error from supply''),
      \<lparr>incoming = [''1\<newline>''], sent = [''*OPC\<newline>'', ''*ESR?\<newline>'', ''*ESR?\<newline>'']\<rparr>)
   \<and> wait \<lparr>incoming = [''16\<newline>'', ''1\<newline>''], sent = []\<rparr> =
     (Inl (RuntimeError ''execution error from supply''),
      \<lparr>incoming = [''1\<newline>''], sent = [''*OPC\<newline>'', ''*ESR?\<newline>'']\<rparr>)
   \<and> wait \<lparr>incoming = [''8\<newline>'', ''1\<newline>''], sent = []\<rparr> =
     (Inl (RuntimeError ''device error from supply''),
      \<lparr>incoming = [''1\<newline>''], sent = [''*OPC\<newline>'', ''*ESR?\<newline>'']\<rparr>)"
  using wait_fatal_bit_aborts
      [of "\<lparr>incoming = [''0\<newline>'', ''32\<newline>'', ''1\<newline>''], sent = []\<rparr>" "[''0\<newline>'']" "''32\<newline>''" "[''1\<newline>'']" 32
          "\<lparr>incoming = [''1\<newline>''], sent = [''*OPC\<newline>'', ''*ESR?\<newline>'', ''*ESR?\<newline>'']\<rparr>"]
    wait_fatal_bit_aborts
      [of "\<lparr>incoming = [''16\<newline>'', ''1\<newline>''], sent = []\<rparr>" "[]" "''16\<newline>''" "[''1\<newline>'']" 16
          "\<lparr>incoming = [''1\<newline>''], sent = [''*OPC\<newline>'', ''*ESR?\<newline>'']\<rparr>"]
    wait_fatal_bit_aborts
      [of "\<lparr>incoming = [''8\<newline>'', ''1\<newline>''], sent = []\<rparr>" "[]" "''8\<newline>''" "[''1\<newline>'']" 8
          "\<lparr>incoming = [''1\<newline>''], sent = [''*OPC\<newline>'', ''*ESR?\<newline>'']\<rparr>"]
  by (simp add: esr_value_examples encode_line_def newline_def)




lemma str_int_examples:
  "str_int 1 = ''1''" "str_int 2 = ''2''" "str_int 3 = ''3''" "str_int 4 = ''4''"
  by code_simp+

text \<open>
  C6. When none of \<^verbatim>\<open>cv\<close>, \<^verbatim>\<open>cc\<close>, \<^verbatim>\<open>cr\<close> is supplied, or more than one is, \<^verbatim>\<open>set_load\<close>
  fails with \<^verbatim>\<open>ValueError\<close> and leaves the transport as it was: nothing is written and
  nothing is read.
\<close>

theorem set_load_rejects_before_sending:
  assumes "length (filter (\<lambda>x. x \<noteq> None) [cv, cc, cr]) \<noteq> 1"
  shows "set_load n cv cc cr t =
           (Inl (ValueError (''supply can track only one of CV / CC / CR mode at a time ''
                   @ str_opt cc @ '' '' @ str_opt cv @ '' '' @ str_opt cr)), t)"
proof -
  from assms have "(cv = None \<and> cc = None \<and> cr = None) \<or> (cv \<noteq> None \<and> cc \<noteq> None) \<or>
         (cv \<noteq> None \<and> cr \<noteq> None) \<or> (cc \<noteq> None \<and> cr \<noteq> None)"
    by (cases cv; cases cc; cases cr) simp_all
  then show ?thesis
    unfolding set_load_def raise_def by (simp only: if_True)
qed

theorem set_load_rejects_before_sending_witness:
  "set_load 1 None None None \<lparr>incoming = [''1\<newline>'', ''CV\<newline>''], sent = []\<rparr> =
     (Inl (ValueError ''supply can track only one of CV / CC / CR mode at a time None None None''),
      \<lparr>incoming = [''1\<newline>'', ''CV\<newline>''], sent = []\<rparr>)
   \<and> set_load 1 (Some ''5.0'') None (Some ''10'') \<lparr>incoming = [''1\<newline>'', ''CV\<newline>''], sent = []\<rparr> =
     (Inl (ValueError ''supply can track only one of CV / CC / CR mode at a time None 5.0 10''),
      \<lparr>incoming = [''1\<newline>'', ''CV\<newline>''], sent = []\<rparr>)"
  using set_load_rejects_before_sending
          [of None None None 1 "\<lparr>incoming = [''1\<newline>'', ''CV\<newline>''], sent = []\<rparr>"]
        set_load_rejects_before_sending
          [of "Some ''5.0''" None "Some ''10''" 1 "\<lparr>incoming = [''1\<newline>'', ''CV\<newline>''], sent = []\<rparr>"]
  by (simp add: str_opt_def)

text \<open>
  C7. On channels 1 and 2, once the completion wait has returned, \<^verbatim>\<open>set_source\<close> writes
  the mode query, reads one response (a line that decodes and reports a mode), and fails with
  \<^verbatim>\<open>RuntimeError('supply failed to switch to source mode')\<close> exactly when the mode it
  reports is not \<^verbatim>\<open>IND\<close>. On channels 3 and 4 the call ends with the completion wait:
  its result and its transport are those of \<^verbatim>\<open>wait\<close>, so no mode query is written and no
  response to one is read.
\<close>

theorem set_source_verifies_mode:
  "((n = 1 \<or> n = 2) \<and>
    wait (t\<lparr>sent := sent t @ map encode_line
              [''TRACK0'', '':LOAD'' @ str_int n @ '':CC OFF'',
               '':SOUR'' @ str_int n @ '':CURR '' @ c, '':SOUR'' @ str_int n @ '':VOLT '' @ v]\<rparr>)
      = (Inr (), t1) \<and>
    incoming t1 = l # rest \<and> decode_utf8 l = Inr s \<and> re_search pat_word s = Some m \<and>
    t2 = t1\<lparr>sent := sent t1 @ [encode_line ('':MODE'' @ str_int n @ ''?'')], incoming := rest\<rparr>
    \<longrightarrow> set_source n v c t =
          (if group m 1 \<noteq> ''IND''
           then (Inl (RuntimeError ''supply failed to switch to source mode''), t2)
           else (Inr (), t2)))
   \<and>
   (n = 3 \<or> n = 4
    \<longrightarrow> set_source n v c t =
          wait (t\<lparr>sent := sent t @ map encode_line
                  [''TRACK0'', '':SOUR'' @ str_int n @ '':CURR '' @ c,
                   '':SOUR'' @ str_int n @ '':VOLT '' @ v]\<rparr>))"
proof (intro conjI impI)
  assume a: "(n = 1 \<or> n = 2) \<and>
    wait (t\<lparr>sent := sent t @ map encode_line
              [''TRACK0'', '':LOAD'' @ str_int n @ '':CC OFF'',
               '':SOUR'' @ str_int n @ '':CURR '' @ c, '':SOUR'' @ str_int n @ '':VOLT '' @ v]\<rparr>)
      = (Inr (), t1) \<and>
    incoming t1 = l # rest \<and> decode_utf8 l = Inr s \<and> re_search pat_word s = Some m \<and>
    t2 = t1\<lparr>sent := sent t1 @ [encode_line ('':MODE'' @ str_int n @ ''?'')], incoming := rest\<rparr>"
  let ?t0 = "t\<lparr>sent := sent t @ map encode_line
              [''TRACK0'', '':LOAD'' @ str_int n @ '':CC OFF'',
               '':SOUR'' @ str_int n @ '':CURR '' @ c, '':SOUR'' @ str_int n @ '':VOLT '' @ v]\<rparr>"
  let ?k = "if n = 1 \<or> n = 2 then
         next_io (sendline ('':MODE'' @ str_int n @ ''?''))
        (bind (expect pat_word) (\<lambda>rv.
         bind (group_of rv 1) (\<lambda>g.
           if g \<noteq> ''IND'' then raise (RuntimeError ''supply failed to switch to source mode'')
           else return ())))
       else return ()"
  have n: "n = 1 \<or> n = 2" using a by simp
  have w: "wait ?t0 = (Inr (), t1)" using a by simp
  have "set_source n v c t = next_io wait ?k ?t0"
    using n by (simp add: set_source_def next_io_sendline when_io_def)
  also have "\<dots> = ?k t1"
    using w by (rule next_io_Inr)
  also have "\<dots> = (if group m 1 \<noteq> ''IND''
           then (Inl (RuntimeError ''supply failed to switch to source mode''), t2)
           else (Inr (), t2))"
    using n a
    by (simp add: next_io_sendline bind_expect readline_def group_of_Some bind_return
          raise_def return_def)
  finally show "set_source n v c t =
          (if group m 1 \<noteq> ''IND''
           then (Inl (RuntimeError ''supply failed to switch to source mode''), t2)
           else (Inr (), t2))" .
next
  assume n: "n = 3 \<or> n = 4"
  let ?t0 = "t\<lparr>sent := sent t @ map encode_line
                  [''TRACK0'', '':SOUR'' @ str_int n @ '':CURR '' @ c,
                   '':SOUR'' @ str_int n @ '':VOLT '' @ v]\<rparr>"
  have "set_source n v c t = next_io wait (return ()) ?t0"
    using n by (auto simp: set_source_def next_io_sendline when_io_def next_io_return)
  also have "\<dots> = wait ?t0"
    by (cases "wait ?t0") (auto simp: next_io_def bind_def return_def split: sum.splits)
  finally show "set_source n v c t = wait ?t0" .
qed


theorem set_source_verifies_mode_witness:
  "set_source 1 ''5.0'' ''1.0'' \<lparr>incoming = [''1\<newline>'', ''CV\<newline>''], sent = []\<rparr> =
     (Inl (RuntimeError ''supply failed to switch to source mode''),
      \<lparr>incoming = [],
         sent = [''TRACK0\<newline>'', '':LOAD1:CC OFF\<newline>'', '':SOUR1:CURR 1.0\<newline>'', '':SOUR1:VOLT 5.0\<newline>'',
                 ''*OPC\<newline>'', ''*ESR?\<newline>'', '':MODE1?\<newline>'']\<rparr>)
   \<and> set_source 3 ''5.0'' ''1.0'' \<lparr>incoming = [''1\<newline>'', ''CV\<newline>''], sent = []\<rparr> =
     (Inr (),
      \<lparr>incoming = [''CV\<newline>''],
         sent = [''TRACK0\<newline>'', '':SOUR3:CURR 1.0\<newline>'', '':SOUR3:VOLT 5.0\<newline>'',
                 ''*OPC\<newline>'', ''*ESR?\<newline>'']\<rparr>)"
proof -
  have w1: "wait \<lparr>incoming = [''1\<newline>'', ''CV\<newline>''],
                  sent = [''TRACK0\<newline>'', '':LOAD1:CC OFF\<newline>'', '':SOUR1:CURR 1.0\<newline>'', '':SOUR1:VOLT 5.0\<newline>'']\<rparr> =
      (Inr (), \<lparr>incoming = [''CV\<newline>''],
                 sent = [''TRACK0\<newline>'', '':LOAD1:CC OFF\<newline>'', '':SOUR1:CURR 1.0\<newline>'', '':SOUR1:VOLT 5.0\<newline>'',
                         ''*OPC\<newline>'', ''*ESR?\<newline>'']\<rparr>)"
    by code_simp
  have w3: "wait \<lparr>incoming = [''1\<newline>'', ''CV\<newline>''],
                  sent = [''TRACK0\<newline>'', '':SOUR3:CURR 1.0\<newline>'', '':SOUR3:VOLT 5.0\<newline>'']\<rparr> =
      (Inr (), \<lparr>incoming = [''CV\<newline>''],
                 sent = [''TRACK0\<newline>'', '':SOUR3:CURR 1.0\<newline>'', '':SOUR3:VOLT 5.0\<newline>'',
                         ''*OPC\<newline>'', ''*ESR?\<newline>'']\<rparr>)"
    by code_simp
  have m: "re_search pat_word ''CV\<newline>'' = Some [''CV'']"
    by code_simp
  have d: "decode_utf8 ''CV\<newline>'' = Inr ''CV\<newline>''"
    by code_simp
  show ?thesis
    using set_source_verifies_mode
            [of 1 "\<lparr>incoming = [''1\<newline>'', ''CV\<newline>''], sent = []\<rparr>" "''1.0''" "''5.0''"
                "\<lparr>incoming = [''CV\<newline>''],
                 sent = [''TRACK0\<newline>'', '':LOAD1:CC OFF\<newline>'', '':SOUR1:CURR 1.0\<newline>'', '':SOUR1:VOLT 5.0\<newline>'',
                         ''*OPC\<newline>'', ''*ESR?\<newline>'']\<rparr>"
                "''CV\<newline>''" "[]" "''CV\<newline>''" "[''CV'']"
                "\<lparr>incoming = [],
         sent = [''TRACK0\<newline>'', '':LOAD1:CC OFF\<newline>'', '':SOUR1:CURR 1.0\<newline>'', '':SOUR1:VOLT 5.0\<newline>'',
                 ''*OPC\<newline>'', ''*ESR?\<newline>'', '':MODE1?\<newline>'']\<rparr>"]
          set_source_verifies_mode
            [of 3 "\<lparr>incoming = [''1\<newline>'', ''CV\<newline>''], sent = []\<rparr>" "''1.0''" "''5.0''"]
          w1 w3 m d
    by (simp add: str_int_examples encode_line_def newline_def group_def)
qed

text \<open>
  C5 fails on the code for the cycle count 1. \<^verbatim>\<open>sequence\<close> tests \<^verbatim>\<open>seq.cycles == True\<close>, and
  in Python \<^verbatim>\<open>1 == True\<close> holds: for the finite count 1 the infinite-cycles marker
  \<^verbatim>\<open>CYCLE I\<close> is written and the finite command \<^verbatim>\<open>CYCLE N,1\<close> is not.
\<close>

theorem sequence_one_cycle_written_as_infinite:
  "sequence 1 \<lparr>groups = [(''5.0'', ''1.0'', ''10'')], start = ''0'', cycles = PyInt 1, seq_end = ''0''\<rparr>
      False \<lparr>incoming = [''1\<newline>''], sent = []\<rparr> =
     (Inr (),
      \<lparr>incoming = [],
         sent = ['':SEQU1:STAT OFF\<newline>'', '':SEQU1:GROUP 1\<newline>'', '':SEQU1:PARA 0,5.0,1.0,10\<newline>'',
                 '':SEQU1:STAR 0\<newline>'', '':SEQU1:CYCLE I\<newline>'', '':SEQU1:ENDS 0\<newline>'',
                 ''*OPC\<newline>'', ''*ESR?\<newline>'', '':DISP:TYPE 1\<newline>'']\<rparr>)"
  by code_simp

lemma identify_examples:
  "identify \<lparr>incoming = [''GW INSTEK,GPP-4323,SN:GEW111111,V1.02\<newline>''], sent = []\<rparr> =
     Inr (\<lparr>manufacturer = ''GW INSTEK'', model = ''GPP-4323'', serial = ''GEW111111'', version = ''V1.02''\<rparr>,
          \<lparr>incoming = [],
             sent = [''*IDN?\<newline>'', ''*CLS\<newline>'', '':SYST:CLE\<newline>'', '':STAT:QUE:ENAB (-440:+900)\<newline>'']\<rparr>)"
  "identify \<lparr>incoming = [''GW INSTEK,GPP-4323,SN:GEW222222,V1.02\<newline>''], sent = []\<rparr> =
     Inr (\<lparr>manufacturer = ''GW INSTEK'', model = ''GPP-4323'', serial = ''GEW222222'', version = ''V1.02''\<rparr>,
          \<lparr>incoming = [],
             sent = [''*IDN?\<newline>'', ''*CLS\<newline>'', '':SYST:CLE\<newline>'', '':STAT:QUE:ENAB (-440:+900)\<newline>'']\<rparr>)"
  by code_simp+

text \<open>
  C4, as the code has it. The constructor fails with its own \<^verbatim>\<open>GPPException\<close> when no host
  is given and the serial pair is missing or incomplete. When a host is given, the TCP
  connection to it is the one opened, whatever the serial argument is: a failure to open
  it is the constructor's failure, and otherwise the device is identified over that
  connection. With no host and a complete serial pair, the serial port is the one opened,
  in the same way.
\<close>

theorem init_connection_choice:
  "(host = None \<and> (\<forall>p b. sport \<noteq> Some (Some p, Some b))
      \<longrightarrow> GPP4323_init net host sport = Inl (GPPException (Message config_message)))
   \<and> (host = Some h
      \<longrightarrow> GPP4323_init net host sport =
            (case net (TCP h) of Inl e \<Rightarrow> Inl e | Inr stream \<Rightarrow> identify stream))
   \<and> (host = None \<and> sport = Some (Some p, Some b)
      \<longrightarrow> GPP4323_init net host sport =
            (case net (Serial p b) of Inl e \<Rightarrow> Inl e | Inr stream \<Rightarrow> identify stream))"
proof (intro conjI impI)
  assume a: "host = None \<and> (\<forall>p b. sport \<noteq> Some (Some p, Some b))"
  then show "GPP4323_init net host sport = Inl (GPPException (Message config_message))"
    by (cases sport)
       (auto simp: GPP4323_init_def bind_e_def config_message_def split: option.splits prod.splits)
next
  assume "host = Some h"
  then show "GPP4323_init net host sport =
            (case net (TCP h) of Inl e \<Rightarrow> Inl e | Inr stream \<Rightarrow> identify stream)"
    by (simp add: GPP4323_init_def bind_e_def)
next
  assume "host = None \<and> sport = Some (Some p, Some b)"
  then show "GPP4323_init net host sport =
            (case net (Serial p b) of Inl e \<Rightarrow> Inl e | Inr stream \<Rightarrow> identify stream)"
    by (simp add: GPP4323_init_def bind_e_def)
qed

theorem init_connection_choice_witness:
  "GPP4323_init lab_net None None = Inl (GPPException (Message config_message))
   \<and> GPP4323_init lab_net None (Some (Some ''/dev/ttyUSB0'', None)) =
       Inl (GPPException (Message config_message))
   \<and> GPP4323_init lab_net (Some (''192.168.1.72'', 1026)) (Some (None, Some 9600)) =
       Inr (\<lparr>manufacturer = ''GW INSTEK'', model = ''GPP-4323'', serial = ''GEW111111'', version = ''V1.02''\<rparr>,
            \<lparr>incoming = [],
               sent = [''*IDN?\<newline>'', ''*CLS\<newline>'', '':SYST:CLE\<newline>'', '':STAT:QUE:ENAB (-440:+900)\<newline>'']\<rparr>)
   \<and> GPP4323_init lab_net None (Some (Some ''/dev/ttyUSB0'', Some 115200)) =
       Inr (\<lparr>manufacturer = ''GW INSTEK'', model = ''GPP-4323'', serial = ''GEW222222'', version = ''V1.02''\<rparr>,
            \<lparr>incoming = [],
               sent = [''*IDN?\<newline>'', ''*CLS\<newline>'', '':SYST:CLE\<newline>'', '':STAT:QUE:ENAB (-440:+900)\<newline>'']\<rparr>)"
  using init_connection_choice [where host = None and sport = None and net = lab_net]
        init_connection_choice [where host = None and sport = "Some (Some ''/dev/ttyUSB0'', None)"
                                  and net = lab_net]
        init_connection_choice [where host = "Some (''192.168.1.72'', 1026)"
                                  and sport = "Some (None, Some 9600)"
                                  and h = "(''192.168.1.72'', 1026)" and net = lab_net]
        init_connection_choice [where host = None
                                  and sport = "Some (Some ''/dev/ttyUSB0'', Some 115200)"
                                  and net = lab_net and p = "''/dev/ttyUSB0''" and b = 115200]
  by (simp add: identify_examples)

text \<open>
  C4 as stated fails when both connection modes are supplied: the device is
  constructed, over the TCP connection.
\<close>

theorem init_both_modes_counterexample:
  "GPP4323_init lab_net (Some (''192.168.1.72'', 1026)) (Some (Some ''/dev/ttyUSB0'', Some 115200)) =
     Inr (\<lparr>manufacturer = ''GW INSTEK'', model = ''GPP-4323'', serial = ''GEW111111'', version = ''V1.02''\<rparr>,
          \<lparr>incoming = [],
             sent = [''*IDN?\<newline>'', ''*CLS\<newline>'', '':SYST:CLE\<newline>'', '':STAT:QUE:ENAB (-440:+900)\<newline>'']\<rparr>)"
  by code_simp

text \<open>
  C9. On the aggregate response \<^verbatim>\<open>1.234,0.500,0.617;5.000,1.000,5.000\<close> followed by the
  mode responses \<^verbatim>\<open>CV\<close> and \<^verbatim>\<open>IND\<close>, \<^verbatim>\<open>update\<close> yields two entries, numbered 1 and 2
  by position, with the voltage, current and power read from the text (as decimal
  numbers) and the modes \<^verbatim>\<open>CV\<close> and \<^verbatim>\<open>IND\<close>; it writes the aggregate query and one mode
  query per channel.
\<close>

theorem measurement_update_example:
  "update \<lparr>incoming = [''1.234,0.500,0.617;5.000,1.000,5.000\<newline>'', ''CV\<newline>'', ''IND\<newline>''], sent = []\<rparr> =
     (Inr [(1, \<lparr>voltage = 1234 / 1000, current = 500 / 1000, power' = 617 / 1000, channel = 1,
                 mode = Some ''CV''\<rparr>),
           (2, \<lparr>voltage = 5000 / 1000, current = 1000 / 1000, power' = 5000 / 1000, channel = 2,
                 mode = Some ''IND''\<rparr>)],
      \<lparr>incoming = [], sent = ['':MEAS?\<newline>'', '':MODE1?\<newline>'', '':MODE2?\<newline>'']\<rparr>)"
  by code_simp

section \<open>What a call writes\<close>

lemma digit_char_not_space:
  assumes "d < 10"
  shows "digit_char d \<noteq> CHR '' ''"
proof
  assume "digit_char d = CHR '' ''"
  then have "(of_char (digit_char d) :: nat) = of_char (CHR '' '')" by simp
  then show False using assms by (simp add: digit_char_def)
qed

lemma str_nat_no_space: "CHR '' '' \<notin> set (str_nat n)"
proof (induction n rule: str_nat.induct)
  case (1 n)
  show ?case
  proof (cases "n < 10")
    case True
    then show ?thesis
      using digit_char_not_space [of n] by (subst str_nat.simps) auto
  next
    case False
    have "n mod 10 < 10" by simp
    then have "digit_char (n mod 10) \<noteq> CHR '' ''" by (rule digit_char_not_space)
    with 1 False show ?thesis
      by (subst str_nat.simps) auto
  qed
qed

lemma str_int_no_space: "x \<in> set (str_int n) \<Longrightarrow> x \<noteq> CHR '' ''"
  using str_nat_no_space by (auto simp: str_int_def split: if_splits)

lemma sent_readline: "sent (snd (readline t)) = sent t"
  by (simp add: readline_def split: list.splits)

lemma wait_loop_step:
  "snd (wait_loop (Suc k) t) = snd (readline (t\<lparr>sent := sent t @ [encode_line ''*ESR?'']\<rparr>)) \<or>
   wait_loop (Suc k) t = wait_loop k (snd (readline (t\<lparr>sent := sent t @ [encode_line ''*ESR?'']\<rparr>)))"
proof -
  let ?t0 = "t\<lparr>sent := sent t @ [encode_line ''*ESR?'']\<rparr>"
  have f: "fst (readline ?t0) = fst (readline t)"
    by (simp add: readline_def split: list.splits)
  show ?thesis
  proof (cases "decode_utf8 (fst (readline t))")
    case (Inl e)
    then have "wait_loop (Suc k) t = (Inl e, snd (readline ?t0))"
      by (subst wait_loop.simps) (simp add: next_io_sendline bind_expect f)
    then show ?thesis by simp
  next
    case (Inr s)
    show ?thesis
    proof (cases "re_search pat_digits s")
      case None
      with Inr have "wait_loop (Suc k) t =
          (Inl (AttributeError (quoted ''NoneType'' @ '' object has no attribute '' @ quoted ''group'')),
           snd (readline ?t0))"
        by (subst wait_loop.simps)
           (simp add: next_io_sendline bind_expect f group_of_None bind_raise raise_def)
      then show ?thesis by simp
    next
      case (Some m)
      with Inr have "wait_loop (Suc k) t =
          (let v = py_int (group m 1) in
           if v AND 32 \<noteq> 0
           then (Inl (RuntimeError ''command syntax error from supply''), snd (readline ?t0))
           else if v AND 16 \<noteq> 0
           then (Inl (RuntimeError ''execution error from supply''), snd (readline ?t0))
           else if v AND 8 \<noteq> 0
           then (Inl (RuntimeError ''device error from supply''), snd (readline ?t0))
           else if v AND 1 \<noteq> 0 then (Inr (Suc k), snd (readline ?t0))
           else wait_loop k (snd (readline ?t0)))"
        by (subst wait_loop.simps)
           (simp add: next_io_sendline bind_expect f group_of_Some bind_return Let_def
              return_def raise_def)
      then show ?thesis by (simp add: Let_def)
    qed
  qed
qed

lemma wait_loop_sent:
  "\<exists>ws. sent (snd (wait_loop k t)) = sent t @ ws \<and> set ws \<subseteq> {encode_line ''*ESR?''}"
proof (induction k arbitrary: t)
  case 0
  show ?case by (simp add: wait_loop_0)
next
  case (Suc k)
  let ?t1 = "snd (readline (t\<lparr>sent := sent t @ [encode_line ''*ESR?'']\<rparr>))"
  have s1: "sent ?t1 = sent t @ [encode_line ''*ESR?'']"
    by (simp add: sent_readline)
  from Suc [of ?t1] obtain ws where
    ws: "sent (snd (wait_loop k ?t1)) = sent ?t1 @ ws" "set ws \<subseteq> {encode_line ''*ESR?''}"
    by blast
  have "sent (snd (wait_loop (Suc k) t)) = sent ?t1 \<or>
        sent (snd (wait_loop (Suc k) t)) = sent (snd (wait_loop k ?t1))"
    using wait_loop_step [of k t] by auto
  then show ?case
  proof
    assume "sent (snd (wait_loop (Suc k) t)) = sent ?t1"
    then show ?thesis using s1 by (intro exI [of _ "[encode_line ''*ESR?'']"]) simp
  next
    assume "sent (snd (wait_loop (Suc k) t)) = sent (snd (wait_loop k ?t1))"
    then show ?thesis
      using s1 ws by (intro exI [of _ "encode_line ''*ESR?'' # ws"]) simp
  qed
qed

lemma wait_sent:
  "\<exists>ws. sent (snd (wait t)) = sent t @ ws \<and>
        set ws \<subseteq> {encode_line ''*OPC'', encode_line ''*ESR?''}"
proof -
  let ?t0 = "t\<lparr>sent := sent t @ [encode_line ''*OPC'']\<rparr>"
  from wait_loop_sent [of 5 ?t0] obtain ws where
    ws: "sent (snd (wait_loop 5 ?t0)) = sent ?t0 @ ws" "set ws \<subseteq> {encode_line ''*ESR?''}"
    by blast
  have "sent (snd (wait t)) = sent (snd (wait_loop 5 ?t0))"
    by (simp add: wait_unfold split: prod.splits sum.splits)
  with ws show ?thesis
    by (intro exI [of _ "encode_line ''*OPC'' # ws"]) auto
qed

lemma next_io_assoc: "next_io (next_io m1 m2) k = next_io m1 (next_io m2 k)"
  by (rule ext) (simp add: next_io_def bind_def split: prod.splits sum.splits)

lemma when_io_True: "when_io True m = m"
  by (simp add: when_io_def)

lemma when_io_False: "when_io False m = return ()"
  by (simp add: when_io_def)

lemma monitor_unfold:
  "monitor n cur vol pow trig t =
     next_io wait
    (next_io (when_io (trig \<noteq> 0 \<and> (cur \<noteq> None \<or> vol \<noteq> None \<or> pow \<noteq> None))
                (sendline ('':MONI'' @ str_int n @ '':STAT ON'')))
    (next_io wait
      (sendline '':DISP:TYPE 1'')))
      (t\<lparr>sent := sent t @ map encode_line (monitor_setup n cur vol pow trig)\<rparr>)"
  by (cases cur; cases vol; cases pow)
     (simp_all add: monitor_def monitor_setup_def next_io_assoc next_io_sendline
        when_io_True when_io_False next_io_return)

lemma monitor_finish_sent:
  "\<exists>ws. sent (snd ((next_io wait
            (next_io (when_io arm (sendline ('':MONI'' @ str_int n @ '':STAT ON'')))
            (next_io wait (sendline '':DISP:TYPE 1'')))) t)) = sent t @ ws \<and>
        set ws \<subseteq> {encode_line ''*OPC'', encode_line ''*ESR?'',
                    encode_line ('':MONI'' @ str_int n @ '':STAT ON''),
                    encode_line '':DISP:TYPE 1''}"
proof (cases "wait t")
  case (Pair r1 t1)
  from wait_sent [of t] Pair obtain ws1 where
    ws1: "sent t1 = sent t @ ws1" "set ws1 \<subseteq> {encode_line ''*OPC'', encode_line ''*ESR?''}"
    by auto
  show ?thesis
  proof (cases r1)
    case (Inl e)
    with Pair have "next_io wait
            (next_io (when_io arm (sendline ('':MONI'' @ str_int n @ '':STAT ON'')))
            (next_io wait (sendline '':DISP:TYPE 1''))) t = (Inl e, t1)"
      by (simp add: next_io_Inl)
    with ws1 show ?thesis by (intro exI [of _ ws1]) auto
  next
    case (Inr u)
    let ?t2 = "if arm then t1\<lparr>sent := sent t1 @ [encode_line ('':MONI'' @ str_int n @ '':STAT ON'')]\<rparr>
               else t1"
    obtain ws2 where ws2: "sent ?t2 = sent t1 @ ws2"
        "set ws2 \<subseteq> {encode_line ('':MONI'' @ str_int n @ '':STAT ON'')}"
      by (cases arm) auto
    have step1: "next_io wait
            (next_io (when_io arm (sendline ('':MONI'' @ str_int n @ '':STAT ON'')))
            (next_io wait (sendline '':DISP:TYPE 1''))) t =
          next_io wait (sendline '':DISP:TYPE 1'') ?t2"
      using Pair Inr
      by (simp add: next_io_Inr [of wait t _ t1] when_io_def next_io_sendline next_io_return)
    obtain r3 t3 where w3: "wait ?t2 = (r3, t3)" by (cases "wait ?t2")
    from wait_sent [of ?t2] w3 obtain ws3 where
      ws3: "sent t3 = sent ?t2 @ ws3" "set ws3 \<subseteq> {encode_line ''*OPC'', encode_line ''*ESR?''}"
      by auto
    show ?thesis
    proof (cases r3)
      case (Inl e)
      with w3 have "next_io wait (sendline '':DISP:TYPE 1'') ?t2 = (Inl e, t3)"
        by (simp add: next_io_Inl)
      with step1 ws1 ws2 ws3 show ?thesis
        by (intro exI [of _ "ws1 @ ws2 @ ws3"]) auto
    next
      case (Inr u')
      with w3 have "next_io wait (sendline '':DISP:TYPE 1'') ?t2 =
                    sendline '':DISP:TYPE 1'' t3"
        by (simp add: next_io_Inr [of wait _ _ t3])
      with step1 ws1 ws2 ws3 show ?thesis
        by (intro exI [of _ "ws1 @ ws2 @ ws3 @ [encode_line '':DISP:TYPE 1'']"])
           (auto simp: sendline_def)
    qed
  qed
qed


lemma keyword_simps:
  "keyword (encode_line ''*OPC'') = ''*OPC\<newline>''"
  "keyword (encode_line ''*ESR?'') = ''*ESR?\<newline>''"
  "keyword (encode_line '':DISP:TYPE 1'') = '':DISP:TYPE''"
  "keyword (encode_line ('':MONI'' @ str_int n @ '':STAT ON'')) = '':MONI'' @ str_int n @ '':STAT''"
  "keyword (encode_line ('':MONI'' @ str_int n @ '':STAT OFF'')) = '':MONI'' @ str_int n @ '':STAT''"
  "keyword (encode_line ('':MONI'' @ str_int n @ '':STOP '' @ x)) = '':MONI'' @ str_int n @ '':STOP''"
  "keyword (encode_line ('':MONI'' @ str_int n @ '':CURR:COND '' @ x)) = '':MONI'' @ str_int n @ '':CURR:COND''"
  "keyword (encode_line ('':MONI'' @ str_int n @ '':VOLT:COND '' @ x)) = '':MONI'' @ str_int n @ '':VOLT:COND''"
  "keyword (encode_line ('':MONI'' @ str_int n @ '':POWER:COND '' @ x)) = '':MONI'' @ str_int n @ '':POWER:COND''"
  "keyword (encode_line ('':MONI'' @ str_int n @ '':CURR:VAL '' @ x)) = '':MONI'' @ str_int n @ '':CURR:VAL''"
  "keyword (encode_line ('':MONI'' @ str_int n @ '':VOLT:VAL '' @ x)) = '':MONI'' @ str_int n @ '':VOLT:VAL''"
  "keyword (encode_line ('':MONI'' @ str_int n @ '':POWER:VAL '' @ x)) = '':MONI'' @ str_int n @ '':POWER:VAL''"
  by (simp_all add: keyword_def encode_line_def newline_def str_int_no_space)


lemmas keyword_norm = keyword_simps [simplified]

lemma monitor_written:
  "\<exists>ws. written t (snd (monitor n cur vol pow trig t)) =
          map encode_line (monitor_setup n cur vol pow trig) @ ws \<and>
        set ws \<subseteq> {encode_line ''*OPC'', encode_line ''*ESR?'',
                    encode_line ('':MONI'' @ str_int n @ '':STAT ON''),
                    encode_line '':DISP:TYPE 1''}"
proof -
  let ?t0 = "t\<lparr>sent := sent t @ map encode_line (monitor_setup n cur vol pow trig)\<rparr>"
  from monitor_finish_sent [of "trig \<noteq> 0 \<and> (cur \<noteq> None \<or> vol \<noteq> None \<or> pow \<noteq> None)" n ?t0]
  obtain ws where ws: "sent (snd (monitor n cur vol pow trig t)) = sent ?t0 @ ws"
    "set ws \<subseteq> {encode_line ''*OPC'', encode_line ''*ESR?'',
                    encode_line ('':MONI'' @ str_int n @ '':STAT ON''),
                    encode_line '':DISP:TYPE 1''}"
    unfolding monitor_unfold by blast
  from ws(1) have "written t (snd (monitor n cur vol pow trig t)) =
          map encode_line (monitor_setup n cur vol pow trig) @ ws"
    by (simp add: written_def)
  with ws(2) show ?thesis by blast
qed

lemma finish_not_condition:
  assumes "set ws \<subseteq> {encode_line ''*OPC'', encode_line ''*ESR?'',
                    encode_line ('':MONI'' @ str_int n @ '':STAT ON''),
                    encode_line '':DISP:TYPE 1''}"
  shows "filter (is_condition_command n) ws = []" and "filter (is_stop_command n) ws = []"
proof -
  have "\<not> is_condition_command n c \<and> \<not> is_stop_command n c" if "c \<in> set ws" for c
  proof -
    from that assms have "c = encode_line ''*OPC'' \<or> c = encode_line ''*ESR?'' \<or>
        c = encode_line ('':MONI'' @ str_int n @ '':STAT ON'') \<or> c = encode_line '':DISP:TYPE 1''"
      by auto
    then show ?thesis
      by (elim disjE) (simp_all add: is_condition_command_def is_stop_command_def keyword_norm)
  qed
  then show "filter (is_condition_command n) ws = []" and "filter (is_stop_command n) ws = []"
    by (simp_all add: filter_empty_conv)
qed



lemma setup_stops:
  "filter (is_stop_command n) (map encode_line (monitor_setup n cur vol pow trig)) =
     map encode_line
       ['':MONI'' @ str_int n @ '':STOP BEEPER,ON'',
        '':MONI'' @ str_int n @ '':STOP OUTOFF,'' @ on_off (trig AND TRIG_OUTOFF \<noteq> 0),
        '':MONI'' @ str_int n @ '':STOP ALARM,'' @ on_off (trig AND TRIG_ALARM \<noteq> 0),
        '':MONI'' @ str_int n @ '':STOP BEEPER,'' @ on_off (trig AND TRIG_BEEPER \<noteq> 0)]"
  by (cases cur; cases vol; cases pow)
     (simp_all add: monitor_setup_def is_stop_command_def keyword_norm)


lemma setup_conditions:
  "mset (filter (is_condition_command n) (map encode_line (monitor_setup n cur vol pow trig))) =
     {# encode_line ('':MONI'' @ str_int n @ '':CURR:COND ''
                      @ (case cur of Some c \<Rightarrow> fst c @ ''C,AND'' | None \<Rightarrow> ''NONE,NONE'')),
        encode_line ('':MONI'' @ str_int n @ '':VOLT:COND ''
                      @ (case vol of Some v \<Rightarrow> fst v @ ''V,AND'' | None \<Rightarrow> ''NONE,NONE'')),
        encode_line ('':MONI'' @ str_int n @ '':POWER:COND ''
                      @ (case pow of Some p \<Rightarrow> fst p @ ''P'' | None \<Rightarrow> ''NONE'')) #}"
  by (cases cur; cases vol; cases pow)
     (simp_all add: monitor_setup_def is_condition_command_def keyword_norm)


text \<open>
  C8. Whatever conditions and trigger mask \<^verbatim>\<open>monitor\<close> is given, and whatever the instrument
  answers, the lines it writes hold exactly three condition commands, one each for
  current, voltage and power, each carrying the supplied comparator or the explicit
  \<^verbatim>\<open>NONE\<close> value, and exactly four stop commands, in this order: \<^verbatim>\<open>BEEPER,ON\<close>, then the
  output-off, alarm and beeper states, \<^verbatim>\<open>ON\<close> or \<^verbatim>\<open>OFF\<close> by the bits 1, 2 and 4 of the
  trigger mask.
\<close>

theorem monitor_writes_all_conditions_and_stops:
  "mset (filter (is_condition_command n) (written t (snd (monitor n cur vol pow trig t)))) =
     {# encode_line ('':MONI'' @ str_int n @ '':CURR:COND ''
                      @ (case cur of Some c \<Rightarrow> fst c @ ''C,AND'' | None \<Rightarrow> ''NONE,NONE'')),
        encode_line ('':MONI'' @ str_int n @ '':VOLT:COND ''
                      @ (case vol of Some v \<Rightarrow> fst v @ ''V,AND'' | None \<Rightarrow> ''NONE,NONE'')),
        encode_line ('':MONI'' @ str_int n @ '':POWER:COND ''
                      @ (case pow of Some p \<Rightarrow> fst p @ ''P'' | None \<Rightarrow> ''NONE'')) #}
   \<and> filter (is_stop_command n) (written t (snd (monitor n cur vol pow trig t))) =
     map encode_line
       ['':MONI'' @ str_int n @ '':STOP BEEPER,ON'',
        '':MONI'' @ str_int n @ '':STOP OUTOFF,'' @ on_off (trig AND TRIG_OUTOFF \<noteq> 0),
        '':MONI'' @ str_int n @ '':STOP ALARM,'' @ on_off (trig AND TRIG_ALARM \<noteq> 0),
        '':MONI'' @ str_int n @ '':STOP BEEPER,'' @ on_off (trig AND TRIG_BEEPER \<noteq> 0)]"
proof -
  from monitor_written [of t n cur vol pow trig] obtain ws where
    w: "written t (snd (monitor n cur vol pow trig t)) =
          map encode_line (monitor_setup n cur vol pow trig) @ ws"
    and ws: "set ws \<subseteq> {encode_line ''*OPC'', encode_line ''*ESR?'',
                    encode_line ('':MONI'' @ str_int n @ '':STAT ON''),
                    encode_line '':DISP:TYPE 1''}"
    by blast
  have c: "filter (is_condition_command n) (written t (snd (monitor n cur vol pow trig t))) =
           filter (is_condition_command n) (map encode_line (monitor_setup n cur vol pow trig))"
    unfolding w filter_append finish_not_condition(1) [OF ws] by (rule append_Nil2)
  have s: "filter (is_stop_command n) (written t (snd (monitor n cur vol pow trig t))) =
           filter (is_stop_command n) (map encode_line (monitor_setup n cur vol pow trig))"
    unfolding w filter_append finish_not_condition(2) [OF ws] by (rule append_Nil2)
  show ?thesis
    unfolding c s using setup_conditions [of n cur vol pow trig] setup_stops [of n cur vol pow trig]
    by (rule conjI)
qed

theorem monitor_writes_all_conditions_and_stops_witness:
  "mset (filter (is_condition_command 1)
      (written \<lparr>incoming = [''1\<newline>'', ''1\<newline>''], sent = []\<rparr>
         (snd (monitor 1 (Some (ABOVE ''1.5'')) None None 3 \<lparr>incoming = [''1\<newline>'', ''1\<newline>''], sent = []\<rparr>)))) =
     {# '':MONI1:CURR:COND >C,AND\<newline>'', '':MONI1:VOLT:COND NONE,NONE\<newline>'', '':MONI1:POWER:COND NONE\<newline>'' #}
   \<and> filter (is_stop_command 1)
      (written \<lparr>incoming = [''1\<newline>'', ''1\<newline>''], sent = []\<rparr>
         (snd (monitor 1 (Some (ABOVE ''1.5'')) None None 3 \<lparr>incoming = [''1\<newline>'', ''1\<newline>''], sent = []\<rparr>))) =
     ['':MONI1:STOP BEEPER,ON\<newline>'', '':MONI1:STOP OUTOFF,ON\<newline>'', '':MONI1:STOP ALARM,ON\<newline>'',
      '':MONI1:STOP BEEPER,OFF\<newline>'']"
proof -
  have b: "(3 :: int) AND TRIG_OUTOFF \<noteq> 0" "(3 :: int) AND TRIG_ALARM \<noteq> 0"
          "\<not> (3 :: int) AND TRIG_BEEPER \<noteq> 0"
    by (simp_all add: TRIG_OUTOFF_def TRIG_ALARM_def TRIG_BEEPER_def)
  show ?thesis
    using monitor_writes_all_conditions_and_stops
            [of 1 "\<lparr>incoming = [''1\<newline>'', ''1\<newline>''], sent = []\<rparr>" "Some (ABOVE ''1.5'')" None None 3]
    by (simp add: b str_int_examples encode_line_def newline_def ABOVE_def on_off_def)
qed

end
